theory Spec2Isabelle
  imports Main "HOL-Library.Word"
begin

section \<open>Data model\<close>

text \<open>
  The commands of \<^verbatim>\<open>cmd/corimDisplay.go\<close> and \<^verbatim>\<open>cmd/corimCreate.go\<close> work on byte
  slices, file names and Go \<^verbatim>\<open>error\<close> values. A byte slice is a list of 8-bit words, a Go
  error is the text its \<^verbatim>\<open>Error()\<close> method returns (\<^verbatim>\<open>fmt.Errorf\<close> with \<^verbatim>\<open>%w\<close> yields the
  formatted text), and a function returning \<^verbatim>\<open>(T, error)\<close> returns \<open>err + T\<close>.
  Standard output is the list of lines written, the newline ending each
  \<^verbatim>\<open>Println\<close>/\<^verbatim>\<open>Printf\<close> left implicit.
\<close>

type_synonym byte = "8 word"
type_synonym bytes = "byte list"
type_synonym err = string

text \<open>
  \<^verbatim>\<open>corim.UnsignedCorim\<close> and \<^verbatim>\<open>corim.SignedCorim\<close> come from the CoRIM library. The commands
  read the tag list of the former and the two members of the latter; every other field
  is carried in \<open>Rest\<close>.
\<close>

record 'x UnsignedCorim =
  Tags :: "bytes list"
  Rest :: 'x

record ('m, 'x) SignedCorim =
  Meta :: 'm
  UnsignedCorim :: "'x UnsignedCorim"

subsection \<open>The collaborators of the commands\<close>

text \<open>
  The package-level filesystem handle \<^verbatim>\<open>fs\<close> (an \<^verbatim>\<open>afero.Fs\<close>) is passed explicitly.
  \<open>ReadFile\<close> and \<open>WriteFile\<close> are \<^verbatim>\<open>afero.ReadFile\<close> and \<^verbatim>\<open>afero.WriteFile\<close>;
  \<open>filesList\<close> is the helper of \<^verbatim>\<open>cmd/common.go\<close> (not among the sources) that collects
  the files with a given extension from a list of files and a list of directories; it
  is taken as a parameter.
\<close>

record 'fs fsys =
  ReadFile :: "'fs \<Rightarrow> string \<Rightarrow> err + bytes"
  WriteFile :: "'fs \<Rightarrow> string \<Rightarrow> bytes \<Rightarrow> 'fs \<times> err option"
  filesList :: "'fs \<Rightarrow> string list \<Rightarrow> string list \<Rightarrow> string \<Rightarrow> string list"

text \<open>
  What \<^verbatim>\<open>display\<close> calls: the two top-level decoders of the CoRIM library and
  \<^verbatim>\<open>json.MarshalIndent\<close> at the two types it is used at.
\<close>

record ('m, 'x) decoders =
  FromCOSE :: "bytes \<Rightarrow> err + ('m, 'x) SignedCorim"
  FromCBOR :: "bytes \<Rightarrow> err + 'x UnsignedCorim"
  MarshalIndentMeta :: "'m \<Rightarrow> err + string"
  MarshalIndentCorim :: "'x UnsignedCorim \<Rightarrow> err + string"

text \<open>
  What \<^verbatim>\<open>displayTags\<close> calls: the three tag identifiers \<^verbatim>\<open>corim.ComidTag\<close>,
  \<^verbatim>\<open>corim.CoswidTag\<close> and \<^verbatim>\<open>cots.CotsTag\<close> of the libraries, and the three printers of
  \<^verbatim>\<open>cmd/common.go\<close> (not among the sources), all taken as parameters. A printer takes
  the payload and the heading, and returns the lines it printed and its error.
\<close>

record registry =
  ComidTag :: bytes
  CoswidTag :: bytes
  CotsTag :: bytes
  printComid :: "bytes \<Rightarrow> string \<Rightarrow> string list \<times> err option"
  printCoswid :: "bytes \<Rightarrow> string \<Rightarrow> string list \<times> err option"
  printCots :: "bytes \<Rightarrow> string \<Rightarrow> string list \<times> err option"

section \<open>Formatting verbs\<close>

text \<open>\<^verbatim>\<open>%d\<close> of a non-negative \<^verbatim>\<open>int\<close>: its decimal digits.\<close>

fun fmt_d :: "nat \<Rightarrow> string" where
  "fmt_d n =
     (if n < 10 then [''0123456789'' ! n]
      else fmt_d (n div 10) @ [''0123456789'' ! (n mod 10)])"

text \<open>\<^verbatim>\<open>%x\<close> of a byte slice: two lower-case hexadecimal digits for each byte.\<close>

definition fmt_x :: "bytes \<Rightarrow> string" where
  "fmt_x bs =
     concat (map (\<lambda>b. [''0123456789abcdef'' ! (unat b div 16),
                        ''0123456789abcdef'' ! (unat b mod 16)]) bs)"

section \<open>The display command\<close>

text \<open>
  One iteration of the loop of \<^verbatim>\<open>displayTags\<close>, for the entry \<open>e\<close> at index \<open>i\<close>:
  the lines it prints.
\<close>

definition displayTag :: "registry \<Rightarrow> nat \<Rightarrow> bytes \<Rightarrow> string list" where
  "displayTag R i e =
     (if length e < 4 then [''>> skipping malformed tag at index '' @ fmt_d i]
      else
        let cborTag = take 3 e; cborData = drop 3 e;
            hdr = ''>> [ '' @ fmt_d i @ '' ]''
        in
          if cborTag = ComidTag R then
            (case printComid R cborData hdr of
               (out, None) \<Rightarrow> out
             | (out, Some e') \<Rightarrow>
                 out @ [''>> skipping malformed CoMID tag at index '' @ fmt_d i @ '': '' @ e'])
          else if cborTag = CoswidTag R then
            (case printCoswid R cborData hdr of
               (out, None) \<Rightarrow> out
             | (out, Some e') \<Rightarrow>
                 out @ [''>> skipping malformed CoSWID tag at index '' @ fmt_d i @ '': '' @ e'])
          else if cborTag = CotsTag R then
            (case printCots R cborData hdr of
               (out, None) \<Rightarrow> out
             | (out, Some e') \<Rightarrow>
                 out @ [''>> skipping malformed CoTS tag at index '' @ fmt_d i @ '': '' @ e'])
          else [''>> unmatched CBOR tag: '' @ fmt_x cborTag])"

text \<open>The loop, from index \<open>i\<close> on.\<close>

fun displayTagsFrom :: "registry \<Rightarrow> nat \<Rightarrow> bytes list \<Rightarrow> string list" where
  "displayTagsFrom R i [] = []"
| "displayTagsFrom R i (e # es) = displayTag R i e @ displayTagsFrom R (Suc i) es"

definition displayTags :: "registry \<Rightarrow> bytes list \<Rightarrow> string list" where
  "displayTags R tags = displayTagsFrom R 0 tags"

text \<open>
  \<^verbatim>\<open>display\<close> returns the lines printed and the error (\<open>None\<close> for \<^verbatim>\<open>nil\<close>). It only
  reads the filesystem.
\<close>

definition display ::
  "'fs fsys \<Rightarrow> ('m, 'x) decoders \<Rightarrow> registry \<Rightarrow> 'fs \<Rightarrow> string \<Rightarrow> bool \<Rightarrow> string list \<times> err option"
where
  "display F D R fs corimFile showTags =
     (case ReadFile F fs corimFile of
        Inl e \<Rightarrow> ([], Some (''error loading CoRIM from '' @ corimFile @ '': '' @ e))
      | Inr corimCBOR \<Rightarrow>
          (case FromCOSE D corimCBOR of
             Inr s \<Rightarrow>
               (case MarshalIndentMeta D (Meta s) of
                  Inl e \<Rightarrow>
                    ([], Some (''error encoding CoRIM Meta from '' @ corimFile @ '': '' @ e))
                | Inr metaJSON \<Rightarrow>
                    (case MarshalIndentCorim D (UnsignedCorim s) of
                       Inl e \<Rightarrow>
                         ([''Meta:'', metaJSON],
                          Some (''error encoding unsigned CoRIM from '' @ corimFile @ '': '' @ e))
                     | Inr corimJSON \<Rightarrow>
                         ([''Meta:'', metaJSON, ''Corim:'', corimJSON] @
                          (if showTags
                           then ''Tags:'' # displayTags R (Tags (UnsignedCorim s))
                           else []),
                          None)))
           | Inl _ \<Rightarrow>
               (case FromCBOR D corimCBOR of
                  Inl e \<Rightarrow>
                    ([], Some (''error decoding CoRIM (signed or unsigned) from '' @
                               corimFile @ '': '' @ e))
                | Inr u \<Rightarrow>
                    (case MarshalIndentCorim D u of
                       Inl e \<Rightarrow>
                         ([], Some (''error encoding unsigned CoRIM from '' @ corimFile @ '': '' @ e))
                     | Inr corimJSON \<Rightarrow>
                         ([''Corim:'', corimJSON] @
                          (if showTags then ''Tags:'' # displayTags R (Tags u) else []),
                          None)))))"


section \<open>The create command\<close>

text \<open>
  What \<^verbatim>\<open>corimTemplateToCBOR\<close> calls in the CoRIM, CoSWID and CoTS libraries. An add
  operation returns the receiver, or nil when the artifact is rejected: \<open>Some\<close> of the
  manifest after the addition, or \<open>None\<close>. \<open>Quote\<close> is the \<^verbatim>\<open>%q\<close> verb
  (\<^verbatim>\<open>strconv.Quote\<close>).
\<close>

record ('x, 'a, 'b, 'c) builders =
  FromJSON :: "bytes \<Rightarrow> err + 'x UnsignedCorim"
  ComidFromCBOR :: "bytes \<Rightarrow> err + 'a"
  CoswidFromCBOR :: "bytes \<Rightarrow> err + 'b"
  CotsFromCBOR :: "bytes \<Rightarrow> err + 'c"
  AddComid :: "'x UnsignedCorim \<Rightarrow> 'a \<Rightarrow> 'x UnsignedCorim option"
  AddCoswid :: "'x UnsignedCorim \<Rightarrow> 'b \<Rightarrow> 'x UnsignedCorim option"
  AddCots :: "'x UnsignedCorim \<Rightarrow> 'c \<Rightarrow> 'x UnsignedCorim option"
  Valid :: "'x UnsignedCorim \<Rightarrow> err option"
  ToCBOR :: "'x UnsignedCorim \<Rightarrow> err + bytes"
  Quote :: "string \<Rightarrow> string"

text \<open>The flag variables of the command; a \<^verbatim>\<open>*string\<close> is \<open>None\<close> when nil.\<close>

record createFlags =
  corimCreateCorimFile :: "string option"
  corimCreateCoswidFiles :: "string list"
  corimCreateCoswidDirs :: "string list"
  corimCreateComidFiles :: "string list"
  corimCreateComidDirs :: "string list"
  corimCreateCotsFiles :: "string list"
  corimCreateCotsDirs :: "string list"
  corimCreateOutputFile :: "string option"

definition checkCorimCreateArgs :: "createFlags \<Rightarrow> err option" where
  "checkCorimCreateArgs fl =
     (if corimCreateCorimFile fl = None \<or> corimCreateCorimFile fl = Some ''''
      then Some ''no CoRIM template supplied''
      else if length (corimCreateComidDirs fl) + length (corimCreateComidFiles fl) +
              length (corimCreateCoswidDirs fl) + length (corimCreateCoswidFiles fl) +
              length (corimCreateCotsDirs fl) + length (corimCreateCotsFiles fl) = 0
      then Some ''no CoMID, CoSWID or CoTS files or folders supplied''
      else None)"

subsection \<open>File names\<close>

text \<open>\<^verbatim>\<open>filepath.Ext\<close> and \<^verbatim>\<open>filepath.Base\<close> of the Go library, with \<^verbatim>\<open>/\<close> the separator.\<close>

definition pathExt :: "string \<Rightarrow> string" where
  "pathExt p =
     (let stop = (\<lambda>c. c \<noteq> CHR ''/'' \<and> c \<noteq> CHR ''.'')
      in
        (case dropWhile stop (rev p) of
           [] \<Rightarrow> []
         | c # _ \<Rightarrow> if c = CHR ''.'' then c # rev (takeWhile stop (rev p)) else []))"

definition pathBase :: "string \<Rightarrow> string" where
  "pathBase p =
     (if p = [] then ''.''
      else
        let q = dropWhile (\<lambda>c. c = CHR ''/'') (rev p);
            b = rev (takeWhile (\<lambda>c. c \<noteq> CHR ''/'') q)
        in if b = [] then ''/'' else b)"

text \<open>
  Modelled from the spec: \<^verbatim>\<open>makeFileName\<close> of \<^verbatim>\<open>cmd/common.go\<close>, which is not among the
  sources. The spec says that the default name of the output derives from the name of
  the input file: the last element of \<open>baseName\<close>, its extension replaced by \<open>ext\<close>, in
  the directory \<open>dirName\<close> (the current directory when \<open>dirName\<close> is empty).
\<close>

definition makeFileName :: "string \<Rightarrow> string \<Rightarrow> string \<Rightarrow> string" where
  "makeFileName dirName baseName ext =
     (let name = pathBase (take (length baseName - length (pathExt baseName)) baseName) @ ext
      in if dirName = [] then name else dirName @ ''/'' @ name)"

subsection \<open>Assembling the manifest\<close>

text \<open>The three loops of \<^verbatim>\<open>corimTemplateToCBOR\<close>, each over one list of files.\<close>

fun appendComids ::
  "'fs fsys \<Rightarrow> ('x, 'a, 'b, 'c) builders \<Rightarrow> 'fs \<Rightarrow> 'x UnsignedCorim \<Rightarrow> string list \<Rightarrow>
   err + 'x UnsignedCorim"
where
  "appendComids F B fs c [] = Inr c"
| "appendComids F B fs c (comidFile # rest) =
     (case ReadFile F fs comidFile of
        Inl e \<Rightarrow> Inl (''error loading CoMID from '' @ comidFile @ '': '' @ e)
      | Inr comidCBOR \<Rightarrow>
          (case ComidFromCBOR B comidCBOR of
             Inl e \<Rightarrow> Inl (''error loading CoMID from '' @ comidFile @ '': '' @ e)
           | Inr m \<Rightarrow>
               (case AddComid B c m of
                  None \<Rightarrow>
                    Inl (''error adding CoMID from '' @ comidFile @
                         '' (check its validity using the '' @ Quote B ''comid validate'' @
                         '' sub-command)'')
                | Some c' \<Rightarrow> appendComids F B fs c' rest)))"

fun appendCoswids ::
  "'fs fsys \<Rightarrow> ('x, 'a, 'b, 'c) builders \<Rightarrow> 'fs \<Rightarrow> 'x UnsignedCorim \<Rightarrow> string list \<Rightarrow>
   err + 'x UnsignedCorim"
where
  "appendCoswids F B fs c [] = Inr c"
| "appendCoswids F B fs c (coswidFile # rest) =
     (case ReadFile F fs coswidFile of
        Inl e \<Rightarrow> Inl (''error loading CoSWID from '' @ coswidFile @ '': '' @ e)
      | Inr coswidCBOR \<Rightarrow>
          (case CoswidFromCBOR B coswidCBOR of
             Inl e \<Rightarrow> Inl (''error loading CoSWID from '' @ coswidFile @ '': '' @ e)
           | Inr s \<Rightarrow>
               (case AddCoswid B c s of
                  None \<Rightarrow> Inl (''error adding CoSWID from '' @ coswidFile)
                | Some c' \<Rightarrow> appendCoswids F B fs c' rest)))"

fun appendCots ::
  "'fs fsys \<Rightarrow> ('x, 'a, 'b, 'c) builders \<Rightarrow> 'fs \<Rightarrow> 'x UnsignedCorim \<Rightarrow> string list \<Rightarrow>
   err + 'x UnsignedCorim"
where
  "appendCots F B fs c [] = Inr c"
| "appendCots F B fs c (cotsFile # rest) =
     (case ReadFile F fs cotsFile of
        Inl e \<Rightarrow> Inl (''error loading CoTS from '' @ cotsFile @ '': '' @ e)
      | Inr cotsCBOR \<Rightarrow>
          (case CotsFromCBOR B cotsCBOR of
             Inl e \<Rightarrow> Inl (''error loading CoTS from '' @ cotsFile @ '': '' @ e)
           | Inr t \<Rightarrow>
               (case AddCots B c t of
                  None \<Rightarrow> Inl (''error adding CoTS from '' @ cotsFile)
                | Some c' \<Rightarrow> appendCots F B fs c' rest)))"

text \<open>
  The first part of \<^verbatim>\<open>corimTemplateToCBOR\<close>, up to the comment \<^verbatim>\<open>check the result\<close>:
  the template is read and decoded, then the three loops run in the order of the source.
\<close>

definition assembleCorim ::
  "'fs fsys \<Rightarrow> ('x, 'a, 'b, 'c) builders \<Rightarrow> 'fs \<Rightarrow> string \<Rightarrow> string list \<Rightarrow> string list \<Rightarrow>
   string list \<Rightarrow> err + 'x UnsignedCorim"
where
  "assembleCorim F B fs tmplFile comidFiles coswidFiles cotsFiles =
     (case ReadFile F fs tmplFile of
        Inl e \<Rightarrow> Inl (''error loading template from '' @ tmplFile @ '': '' @ e)
      | Inr tmplData \<Rightarrow>
          (case FromJSON B tmplData of
             Inl e \<Rightarrow> Inl (''error decoding template from '' @ tmplFile @ '': '' @ e)
           | Inr c \<Rightarrow>
               (case appendComids F B fs c comidFiles of
                  Inl e \<Rightarrow> Inl e
                | Inr c1 \<Rightarrow>
                    (case appendCoswids F B fs c1 coswidFiles of
                       Inl e \<Rightarrow> Inl e
                     | Inr c2 \<Rightarrow> appendCots F B fs c2 cotsFiles))))"

text \<open>
  \<^verbatim>\<open>corimTemplateToCBOR\<close> returns the filesystem it leaves and \<^verbatim>\<open>(string, error)\<close>.
  The filesystem changes in \<^verbatim>\<open>afero.WriteFile\<close> only.
\<close>

definition corimTemplateToCBOR ::
  "'fs fsys \<Rightarrow> ('x, 'a, 'b, 'c) builders \<Rightarrow> 'fs \<Rightarrow> string \<Rightarrow> string list \<Rightarrow> string list \<Rightarrow>
   string list \<Rightarrow> string option \<Rightarrow> 'fs \<times> (err + string)"
where
  "corimTemplateToCBOR F B fs tmplFile comidFiles coswidFiles cotsFiles outputFile =
     (case assembleCorim F B fs tmplFile comidFiles coswidFiles cotsFiles of
        Inl e \<Rightarrow> (fs, Inl e)
      | Inr c \<Rightarrow>
          (case Valid B c of
             Some e \<Rightarrow> (fs, Inl (''error validating CoRIM: '' @ e))
           | None \<Rightarrow>
               (case ToCBOR B c of
                  Inl e \<Rightarrow> (fs, Inl (''error encoding CoRIM to CBOR: '' @ e))
                | Inr corimCBOR \<Rightarrow>
                    let corimFile =
                          (if outputFile = None \<or> outputFile = Some ''''
                           then makeFileName '''' tmplFile ''.cbor''
                           else the outputFile)
                    in
                      (case WriteFile F fs corimFile corimCBOR of
                         (fs', Some e) \<Rightarrow>
                           (fs', Inl (''error saving CoRIM to file '' @ corimFile @ '': '' @ e))
                       | (fs', None) \<Rightarrow> (fs', Inr corimFile)))))"

text \<open>
  The \<^verbatim>\<open>RunE\<close> function of \<^verbatim>\<open>NewCorimCreateCmd\<close>: the filesystem it leaves, the lines
  printed and the error.
\<close>

definition corimCreateRun ::
  "'fs fsys \<Rightarrow> ('x, 'a, 'b, 'c) builders \<Rightarrow> 'fs \<Rightarrow> createFlags \<Rightarrow>
   'fs \<times> string list \<times> err option"
where
  "corimCreateRun F B fs fl =
     (case checkCorimCreateArgs fl of
        Some e \<Rightarrow> (fs, [], Some e)
      | None \<Rightarrow>
          let comidFilesList =
                filesList F fs (corimCreateComidFiles fl) (corimCreateComidDirs fl) ''.cbor'';
              coswidFilesList =
                filesList F fs (corimCreateCoswidFiles fl) (corimCreateCoswidDirs fl) ''.cbor'';
              cotsFilesList =
                filesList F fs (corimCreateCotsFiles fl) (corimCreateCotsDirs fl) ''.cbor''
          in
            if length comidFilesList + length coswidFilesList + length cotsFilesList = 0
            then (fs, [], Some ''no CoMID, CoSWID or CoTS files found'')
            else
              (case corimTemplateToCBOR F B fs (the (corimCreateCorimFile fl))
                      comidFilesList coswidFilesList cotsFilesList (corimCreateOutputFile fl) of
                 (fs', Inl e) \<Rightarrow> (fs', [], Some e)
               | (fs', Inr cborFile) \<Rightarrow>
                   (fs',
                    [''>> created '' @ Quote B cborFile @ '' from '' @
                     Quote B (the (corimCreateCorimFile fl))],
                    None)))"

section \<open>The sign command\<close>

text \<open>
  What the sign command calls in the CoRIM library: decoding and validating the
  unsigned CoRIM and the Meta, building a signer from a JWK, parsing the signing
  certificate and the intermediate certificates, and signing.
\<close>

record ('m, 'x, 'k, 'c) signing =
  CorimFromCBOR :: "bytes \<Rightarrow> err + 'x UnsignedCorim"
  CorimValid :: "'x UnsignedCorim \<Rightarrow> err option"
  MetaFromJSON :: "bytes \<Rightarrow> err + 'm"
  MetaValid :: "'m \<Rightarrow> err option"
  SignerFromJWK :: "bytes \<Rightarrow> err + 'k"
  ParseCert :: "bytes \<Rightarrow> err + 'c"
  ParseCerts :: "bytes \<Rightarrow> err + 'c list"
  Sign :: "'k \<Rightarrow> 'm \<Rightarrow> 'x UnsignedCorim \<Rightarrow> 'c option \<Rightarrow> 'c list \<Rightarrow> err + bytes"

text \<open>
  Modelled from the spec: the handling of the two optional certificate inputs in \<^verbatim>\<open>sign\<close>
  of \<^verbatim>\<open>cmd/corimSign.go\<close>, which is not among the sources. Intermediates supplied without a
  signing certificate are refused before anything is read; then the certificate, if
  supplied, must parse, and so must the intermediates. The messages are those the tests
  expect.
\<close>

definition loadCerts ::
  "'fs fsys \<Rightarrow> ('m, 'x, 'k, 'c) signing \<Rightarrow> 'fs \<Rightarrow> string \<Rightarrow> string \<Rightarrow> err + ('c option \<times> 'c list)"
where
  "loadCerts F S fs certFile intermediatesFile =
     (if intermediatesFile \<noteq> '''' \<and> certFile = ''''
      then Inl ''cannot add intermediate certificates without a signing certificate''
      else if certFile = '''' then Inr (None, [])
      else
        (case ReadFile F fs certFile of
           Inl e \<Rightarrow> Inl (''error loading signing certificate from '' @ certFile @ '': '' @ e)
         | Inr certDER \<Rightarrow>
             (case ParseCert S certDER of
                Inl e \<Rightarrow> Inl (''error adding signing certificate: '' @ e)
              | Inr cert \<Rightarrow>
                  if intermediatesFile = '''' then Inr (Some cert, [])
                  else
                    (case ReadFile F fs intermediatesFile of
                       Inl e \<Rightarrow>
                         Inl (''error loading intermediate certificates from '' @
                              intermediatesFile @ '': '' @ e)
                     | Inr certsDER \<Rightarrow>
                         (case ParseCerts S certsDER of
                            Inl e \<Rightarrow> Inl (''error adding intermediate certificates: '' @ e)
                          | Inr certs \<Rightarrow> Inr (Some cert, certs))))))"

text \<open>
  Modelled from the spec: \<^verbatim>\<open>sign\<close> of \<^verbatim>\<open>cmd/corimSign.go\<close>, which is not among the
  sources; only its tests (\<^verbatim>\<open>cmd/corimSign_test.go\<close>) are. The steps and their order are
  those of the spec's signing envelope: the manifest is decoded and validated, the Meta
  is decoded and validated, the key is parsed, intermediates without a signing
  certificate are refused, the certificate and the intermediates are parsed, and the
  signed CoRIM is written. The messages are those the tests expect; the three that no
  test shows (validating the CoRIM, signing, saving) follow the create command. The
  default output name is the input's name without directory and extension, between
  \<^verbatim>\<open>signed-\<close> and \<^verbatim>\<open>.cbor\<close>, as the tests observe for \<^verbatim>\<open>ok.cbor\<close>. An empty file name
  stands for a flag that is not set.
\<close>

definition sign ::
  "'fs fsys \<Rightarrow> ('m, 'x, 'k, 'c) signing \<Rightarrow> 'fs \<Rightarrow> string \<Rightarrow> string \<Rightarrow> string \<Rightarrow>
   string option \<Rightarrow> string \<Rightarrow> string \<Rightarrow> 'fs \<times> (err + string)"
where
  "sign F S fs unsignedCorimFile metaFile keyFile outputFile certFile intermediatesFile =
     (case ReadFile F fs unsignedCorimFile of
        Inl e \<Rightarrow>
          (fs, Inl (''error loading unsigned CoRIM from '' @ unsignedCorimFile @ '': '' @ e))
      | Inr unsignedCorimCBOR \<Rightarrow>
     (case CorimFromCBOR S unsignedCorimCBOR of
        Inl e \<Rightarrow>
          (fs, Inl (''error decoding unsigned CoRIM from '' @ unsignedCorimFile @ '': '' @ e))
      | Inr c \<Rightarrow>
     (case CorimValid S c of
        Some e \<Rightarrow> (fs, Inl (''error validating CoRIM: '' @ e))
      | None \<Rightarrow>
     (case ReadFile F fs metaFile of
        Inl e \<Rightarrow> (fs, Inl (''error loading CoRIM Meta from '' @ metaFile @ '': '' @ e))
      | Inr metaJSON \<Rightarrow>
     (case MetaFromJSON S metaJSON of
        Inl e \<Rightarrow> (fs, Inl (''error decoding CoRIM Meta from '' @ metaFile @ '': '' @ e))
      | Inr m \<Rightarrow>
     (case MetaValid S m of
        Some e \<Rightarrow> (fs, Inl (''error validating CoRIM Meta: '' @ e))
      | None \<Rightarrow>
     (case ReadFile F fs keyFile of
        Inl e \<Rightarrow> (fs, Inl (''error loading signing key from '' @ keyFile @ '': '' @ e))
      | Inr keyJWK \<Rightarrow>
     (case SignerFromJWK S keyJWK of
        Inl e \<Rightarrow> (fs, Inl (''error loading signing key from '' @ keyFile @ '': '' @ e))
      | Inr signer \<Rightarrow>
     (case loadCerts F S fs certFile intermediatesFile of
        Inl e \<Rightarrow> (fs, Inl e)
      | Inr (cert, certs) \<Rightarrow>
     (case Sign S signer m c cert certs of
        Inl e \<Rightarrow> (fs, Inl (''error signing and serializing CoRIM: '' @ e))
      | Inr signedCorimCBOR \<Rightarrow>
          let signedCorimFile =
                (if outputFile = None \<or> outputFile = Some ''''
                 then ''signed-'' @ makeFileName '''' unsignedCorimFile ''.cbor''
                 else the outputFile)
          in
            (case WriteFile F fs signedCorimFile signedCorimCBOR of
               (fs', Some e) \<Rightarrow>
                 (fs', Inl (''error saving signed CoRIM to file '' @ signedCorimFile @ '': '' @ e))
             | (fs', None) \<Rightarrow> (fs', Inr signedCorimFile))))))))))))"

section \<open>The form of error messages\<close>

text \<open>
  The text of \<open>s\<close> after the first occurrence of \<open>p\<close>, if \<open>p\<close> occurs in \<open>s\<close>.
\<close>

fun findAfter :: "string \<Rightarrow> string \<Rightarrow> string option" where
  "findAfter p [] = (if p = [] then Some [] else None)"
| "findAfter p (c # s) =
     (if take (length p) (c # s) = p then Some (drop (length p) (c # s)) else findAfter p s)"

text \<open>
  A message has the form \<^verbatim>\<open>error <verb>ing <noun> from <path>: <cause>\<close> when it starts
  with \<^verbatim>\<open>error \<close> and then holds \<^verbatim>\<open>ing \<close>, \<^verbatim>\<open> from \<close> and \<^verbatim>\<open>: \<close> in this order, without
  overlap.
\<close>

definition hasErrorForm :: "string \<Rightarrow> bool" where
  "hasErrorForm s =
     (take 6 s = ''error '' \<and>
      (case findAfter ''ing '' (drop 6 s) of
         None \<Rightarrow> False
       | Some r1 \<Rightarrow>
           (case findAfter '' from '' r1 of
              None \<Rightarrow> False
            | Some r2 \<Rightarrow> findAfter '': '' r2 \<noteq> None)))"

definition errorForm :: "string \<Rightarrow> string \<Rightarrow> string \<Rightarrow> string \<Rightarrow> string" where
  "errorForm verb noun path cause =
     ''error '' @ verb @ ''ing '' @ noun @ '' from '' @ path @ '': '' @ cause"

section \<open>Concrete collaborators\<close>

text \<open>
  An in-memory filesystem in the manner of \<^verbatim>\<open>afero.NewMemMapFs\<close>, which the tests use:
  a list of files with their contents. It has no directories.
\<close>

definition memMapFs :: "(string \<times> bytes) list fsys" where
  "memMapFs =
     \<lparr>ReadFile = (\<lambda>fs p. case map_of fs p of
                    None \<Rightarrow> Inl (''open '' @ p @ '': file does not exist'')
                  | Some b \<Rightarrow> Inr b),
      WriteFile = (\<lambda>fs p b. ((p, b) # filter (\<lambda>kv. fst kv \<noteq> p) fs, None)),
      filesList = (\<lambda>fs files dirs ext.
                     filter (\<lambda>f. map_of fs f \<noteq> None \<and> pathExt f = ext) files)\<rparr>"

text \<open>
  A small wire format standing for CBOR: a manifest is the byte \<open>0xA1\<close> followed by its
  tags, each tag one length byte and that many bytes; a signed manifest is the byte
  \<open>0xD2\<close> followed by a manifest.
\<close>

fun splitTags :: "bytes \<Rightarrow> bytes list option" where
  "splitTags [] = Some []"
| "splitTags (n # bs) =
     (if unat n \<le> length bs
      then map_option (\<lambda>ts. take (unat n) bs # ts) (splitTags (drop (unat n) bs))
      else None)"

definition joinTags :: "bytes list \<Rightarrow> bytes" where
  "joinTags ts = concat (map (\<lambda>t. of_nat (length t) # t) ts)"

definition demoFromCBOR :: "bytes \<Rightarrow> err + unit UnsignedCorim" where
  "demoFromCBOR bs =
     (case bs of
        [] \<Rightarrow> Inl ''EOF''
      | b # rest \<Rightarrow>
          if b = 0xA1
          then (case splitTags rest of
                  None \<Rightarrow> Inl ''unexpected EOF''
                | Some ts \<Rightarrow> Inr \<lparr>Tags = ts, Rest = ()\<rparr>)
          else Inl ''expected map (CBOR Major Type 5), found Major Type 3'')"

definition demoDecoders :: "(string, unit) decoders" where
  "demoDecoders =
     \<lparr>FromCOSE = (\<lambda>bs. case bs of
                    [] \<Rightarrow> Inl ''EOF''
                  | b # rest \<Rightarrow>
                      if b = 0xD2
                      then (case demoFromCBOR rest of
                              Inl e \<Rightarrow> Inl e
                            | Inr u \<Rightarrow> Inr \<lparr>Meta = ''signer'', UnsignedCorim = u\<rparr>)
                      else Inl ''failed CBOR decoding for COSE-Sign1 signed CoRIM''),
      FromCBOR = demoFromCBOR,
      MarshalIndentMeta = (\<lambda>m. Inr m),
      MarshalIndentCorim = (\<lambda>u. Inr ''{}'')\<rparr>"

text \<open>The same decoders with a JSON encoder that rejects every manifest.\<close>

definition strictJSONDecoders :: "(string, unit) decoders" where
  "strictJSONDecoders =
     demoDecoders\<lparr>MarshalIndentCorim := (\<lambda>u. Inl ''json: unsupported value'')\<rparr>"

text \<open>A printer that accepts the payloads starting with \<open>0xA1\<close>.\<close>

definition demoPrint :: "bytes \<Rightarrow> string \<Rightarrow> string list \<times> err option" where
  "demoPrint cbor heading =
     (if take 1 cbor = [0xA1] then ([heading, ''{}''], None)
      else ([], Some ''expected map (CBOR Major Type 5), found Major Type 3''))"

definition demoRegistry :: registry where
  "demoRegistry =
     \<lparr>ComidTag = [0xD9, 0x01, 0xFA], CoswidTag = [0xD9, 0x01, 0xF9], CotsTag = [0xD9, 0x01, 0xFB],
      printComid = demoPrint, printCoswid = demoPrint, printCots = demoPrint\<rparr>"

text \<open>
  Builders on the same format: an artifact is its bytes, rejected when empty; an add
  operation appends the artifact behind its tag identifier.
\<close>

definition demoArtifact :: "bytes \<Rightarrow> err + bytes" where
  "demoArtifact bs = (if bs = [] then Inl ''EOF'' else Inr bs)"

definition demoAdd :: "bytes \<Rightarrow> unit UnsignedCorim \<Rightarrow> bytes \<Rightarrow> unit UnsignedCorim option" where
  "demoAdd tag c a = (if take 1 a = [0xA1] then Some (c\<lparr>Tags := Tags c @ [tag @ a]\<rparr>) else None)"

definition demoValid :: "unit UnsignedCorim \<Rightarrow> err option" where
  "demoValid c = (if Tags c = [] then Some ''tags validation failed: no tags'' else None)"

definition demoBuilders :: "(unit, bytes, bytes, bytes) builders" where
  "demoBuilders =
     \<lparr>FromJSON = (\<lambda>bs. if bs = [] then Inl ''unexpected end of JSON input''
                        else Inr \<lparr>Tags = [], Rest = ()\<rparr>),
      ComidFromCBOR = demoArtifact, CoswidFromCBOR = demoArtifact, CotsFromCBOR = demoArtifact,
      AddComid = demoAdd [0xD9, 0x01, 0xFA],
      AddCoswid = demoAdd [0xD9, 0x01, 0xF9],
      AddCots = demoAdd [0xD9, 0x01, 0xFB],
      Valid = demoValid,
      ToCBOR = (\<lambda>c. Inr (0xA1 # joinTags (Tags c))),
      Quote = (\<lambda>s. [CHR 0x22] @ s @ [CHR 0x22])\<rparr>"

text \<open>A signing library on the same format; the signature is one fixed byte.\<close>

definition demoSigning :: "(string, unit, bytes, bytes) signing" where
  "demoSigning =
     \<lparr>CorimFromCBOR = demoFromCBOR,
      CorimValid = demoValid,
      MetaFromJSON = (\<lambda>bs. if bs = [] then Inl ''unexpected end of JSON input''
                            else Inr ''signer''),
      MetaValid = (\<lambda>m. if m = [] then Some ''invalid signer: empty name'' else None),
      SignerFromJWK = demoArtifact,
      ParseCert = demoArtifact,
      ParseCerts = (\<lambda>bs. if bs = [] then Inl ''EOF'' else Inr [bs]),
      Sign = (\<lambda>k m c cert certs. Inr (0xD2 # 0xA1 # joinTags (Tags c)))\<rparr>"

section \<open>Expanding the tags\<close>

lemmas demo_defs =
  memMapFs_def demoDecoders_def demoFromCBOR_def demoRegistry_def
  demoPrint_def display_def displayTags_def displayTag_def fmt_x_def Let_def

text \<open>The loop handles its entries one by one, in order, each under its own index.\<close>

lemma displayTagsFrom_append:
  "displayTagsFrom R k (xs @ ys) = displayTagsFrom R k xs @ displayTagsFrom R (k + length xs) ys"
  by (induction xs arbitrary: k) simp_all

lemma displayTagsFrom_nth:
  assumes "i < length tags"
  shows "displayTagsFrom R k tags =
         displayTagsFrom R k (take i tags) @ displayTag R (k + i) (tags ! i) @
         displayTagsFrom R (Suc (k + i)) (drop (Suc i) tags)"
proof -
  have "tags = take i tags @ tags ! i # drop (Suc i) tags"
    using assms by (rule id_take_nth_drop)
  then have "displayTagsFrom R k tags =
             displayTagsFrom R k (take i tags @ tags ! i # drop (Suc i) tags)"
    by simp
  also have "\<dots> = displayTagsFrom R k (take i tags) @
                  displayTagsFrom R (k + length (take i tags)) (tags ! i # drop (Suc i) tags)"
    by (rule displayTagsFrom_append)
  finally show ?thesis using assms by (simp add: min_absorb2)
qed



lemma displayTag_unmatched:
  "4 \<le> length e \<Longrightarrow> take 3 e \<noteq> ComidTag R \<Longrightarrow> take 3 e \<noteq> CoswidTag R \<Longrightarrow>
   take 3 e \<noteq> CotsTag R \<Longrightarrow>
   displayTag R i e = [''>> unmatched CBOR tag: '' @ fmt_x (take 3 e)]"
  by (simp add: displayTag_def Let_def)





text \<open>
  The text that \<^verbatim>\<open>%x\<close> prints determines the bytes: two hexadecimal digits for each
  byte, the high half first.
\<close>

lemma hex_digit_inj:
  assumes "i < 16" and "j < 16"
    and "''0123456789abcdef'' ! i = ''0123456789abcdef'' ! j"
  shows "i = j"
proof -
  have "distinct ''0123456789abcdef''" by simp
  moreover have "length ''0123456789abcdef'' = 16" by simp
  ultimately show ?thesis using assms by (simp add: nth_eq_iff_index_eq)
qed

lemma hex_byte_inj:
  fixes a b :: byte
  assumes "''0123456789abcdef'' ! (unat a div 16) = ''0123456789abcdef'' ! (unat b div 16)"
    and "''0123456789abcdef'' ! (unat a mod 16) = ''0123456789abcdef'' ! (unat b mod 16)"
  shows "a = b"
proof -
  have la: "unat a < 256" and lb: "unat b < 256"
    using unsigned_less [of a, where ?'a = nat] unsigned_less [of b, where ?'a = nat]
    by simp_all
  then have "unat a div 16 < 16" and "unat b div 16 < 16" by simp_all
  then have d: "unat a div 16 = unat b div 16" using assms(1) by (rule hex_digit_inj)
  have "unat a mod 16 < 16" and "unat b mod 16 < 16" by simp_all
  then have m: "unat a mod 16 = unat b mod 16" using assms(2) by (rule hex_digit_inj)
  from d m have "unat a = unat b" by (metis div_mult_mod_eq)
  then show ?thesis by (simp add: word_unat_eq_iff)
qed

lemma fmt_x_inj: "fmt_x xs = fmt_x ys \<Longrightarrow> xs = ys"
proof (induction xs arbitrary: ys)
  case Nil
  then show ?case by (cases ys) (simp_all add: fmt_x_def)
next
  case (Cons a xs)
  then obtain b ys' where ys: "ys = b # ys'"
    by (cases ys) (simp_all add: fmt_x_def)
  with Cons.prems have "a = b" and "fmt_x xs = fmt_x ys'"
    by (auto simp: fmt_x_def intro: hex_byte_inj)
  with Cons.IH ys show ?case by simp
qed

lemma fmt_x_three:
  "fmt_x [a, b, c] =
   [''0123456789abcdef'' ! (unat a div 16), ''0123456789abcdef'' ! (unat a mod 16),
    ''0123456789abcdef'' ! (unat b div 16), ''0123456789abcdef'' ! (unat b mod 16),
    ''0123456789abcdef'' ! (unat c div 16), ''0123456789abcdef'' ! (unat c mod 16)]"
  by (simp add: fmt_x_def)

text \<open>
  C5. An entry of at least 4 bytes whose first three bytes are none of the three
  identifiers prints one line, \<^verbatim>\<open>>> unmatched CBOR tag: \<close> and these three bytes in
  hexadecimal: six digits, two for each byte, the high half first, in lower case. No
  other identifier prints the same digits. The entries before it and after it are
  expanded as they are without it, under their own indices.
\<close>

theorem unmatched_tag_reported:
  assumes "i < length tags" and "4 \<le> length (tags ! i)"
    and "take 3 (tags ! i) \<noteq> ComidTag R"
    and "take 3 (tags ! i) \<noteq> CoswidTag R"
    and "take 3 (tags ! i) \<noteq> CotsTag R"
  shows "displayTags R tags =
           displayTags R (take i tags) @
           [''>> unmatched CBOR tag: '' @ fmt_x (take 3 (tags ! i))] @
           displayTagsFrom R (Suc i) (drop (Suc i) tags) \<and>
         (\<exists>a b c rest.
            tags ! i = a # b # c # rest \<and>
            displayTags R tags =
              displayTags R (take i tags) @
              [''>> unmatched CBOR tag: '' @
               [''0123456789abcdef'' ! (unat a div 16), ''0123456789abcdef'' ! (unat a mod 16),
                ''0123456789abcdef'' ! (unat b div 16), ''0123456789abcdef'' ! (unat b mod 16),
                ''0123456789abcdef'' ! (unat c div 16), ''0123456789abcdef'' ! (unat c mod 16)]] @
              displayTagsFrom R (Suc i) (drop (Suc i) tags)) \<and>
         (\<forall>ident. fmt_x ident = fmt_x (take 3 (tags ! i)) \<longrightarrow> ident = take 3 (tags ! i))"
proof (intro conjI)
  show shown: "displayTags R tags =
           displayTags R (take i tags) @
           [''>> unmatched CBOR tag: '' @ fmt_x (take 3 (tags ! i))] @
           displayTagsFrom R (Suc i) (drop (Suc i) tags)"
    using assms displayTagsFrom_nth [of i tags R 0]
    by (simp add: displayTags_def displayTag_unmatched)
  from assms(2) obtain a b c rest where e: "tags ! i = a # b # c # rest"
    by (cases "tags ! i" rule: list.exhaust; simp)
       (metis Suc_le_length_iff numeral_3_eq_3 length_Cons list.size(3) not_less_eq_eq le0)
  then have "take 3 (tags ! i) = [a, b, c]" by simp
  with shown e show "\<exists>a b c rest.
            tags ! i = a # b # c # rest \<and>
            displayTags R tags =
              displayTags R (take i tags) @
              [''>> unmatched CBOR tag: '' @
               [''0123456789abcdef'' ! (unat a div 16), ''0123456789abcdef'' ! (unat a mod 16),
                ''0123456789abcdef'' ! (unat b div 16), ''0123456789abcdef'' ! (unat b mod 16),
                ''0123456789abcdef'' ! (unat c div 16), ''0123456789abcdef'' ! (unat c mod 16)]] @
              displayTagsFrom R (Suc i) (drop (Suc i) tags)"
    by (simp only: fmt_x_three) blast
  show "\<forall>ident. fmt_x ident = fmt_x (take 3 (tags ! i)) \<longrightarrow> ident = take 3 (tags ! i)"
    using fmt_x_inj by blast
qed

text \<open>
  An unknown identifier between a CoMID and a CoSWID tag, and two unknown identifiers
  in a row: each is shown by its own six digits.
\<close>

theorem unmatched_tag_reported_witness:
  "displayTags demoRegistry
     [[0xD9, 0x01, 0xFA, 0xA1], [0xD9, 0x01, 0xFF, 0xA1], [0xD9, 0x01, 0xF9, 0xA1]] =
     [''>> [ 0 ]'', ''{}'', ''>> unmatched CBOR tag: d901ff'', ''>> [ 2 ]'', ''{}''] \<and>
   displayTags demoRegistry [[0x00, 0x0A, 0xBC, 0x7E, 0x01], [0x4D, 0x5A, 0x90, 0x00]] =
     [''>> unmatched CBOR tag: 000abc'', ''>> unmatched CBOR tag: 4d5a90'']"
  using unmatched_tag_reported
    [of 1 "[[0xD9, 0x01, 0xFA, 0xA1], [0xD9, 0x01, 0xFF, 0xA1], [0xD9, 0x01, 0xF9, 0xA1]]"
        demoRegistry]
    unmatched_tag_reported
    [of 0 "[[0x00, 0x0A, 0xBC, 0x7E, 0x01], [0x4D, 0x5A, 0x90, 0x00]]" demoRegistry]
  by (simp add: demo_defs)

section \<open>Decoding a CoRIM for display\<close>

text \<open>
  C1, as the code has it. Once the file is read: when the signed decoding succeeds, the
  result of \<^verbatim>\<open>display\<close> does not depend on the unsigned decoder; when it fails and the
  unsigned decoding succeeds, the result is the view of the unsigned manifest and no
  error, provided that the manifest can be encoded to JSON, and the error of the JSON
  encoder under \<^verbatim>\<open>error encoding unsigned CoRIM from <file>: \<close> otherwise; when both
  fail, the error is that of the unsigned decoding under
  \<^verbatim>\<open>error decoding CoRIM (signed or unsigned) from <file>: \<close>.
\<close>

theorem display_dispatch:
  assumes rd: "ReadFile F fs f = Inr b"
  shows "(\<forall>s g. FromCOSE D b = Inr s \<longrightarrow>
            display F (D\<lparr>FromCBOR := g\<rparr>) R fs f t = display F D R fs f t) \<and>
         (\<forall>e u j. FromCOSE D b = Inl e \<and> FromCBOR D b = Inr u \<and>
                   MarshalIndentCorim D u = Inr j \<longrightarrow>
            display F D R fs f t =
              ([''Corim:'', j] @ (if t then ''Tags:'' # displayTags R (Tags u) else []), None)) \<and>
         (\<forall>e u e'. FromCOSE D b = Inl e \<and> FromCBOR D b = Inr u \<and>
                    MarshalIndentCorim D u = Inl e' \<longrightarrow>
            display F D R fs f t =
              ([], Some (''error encoding unsigned CoRIM from '' @ f @ '': '' @ e'))) \<and>
         (\<forall>e e'. FromCOSE D b = Inl e \<and> FromCBOR D b = Inl e' \<longrightarrow>
            display F D R fs f t =
              ([], Some (''error decoding CoRIM (signed or unsigned) from '' @ f @ '': '' @ e')))"
  using rd by (auto simp: display_def split: sum.splits)

theorem display_dispatch_witness:
  "ReadFile memMapFs [(''s.cbor'', [0xD2, 0xA1]), (''u.cbor'', [0xA1]),
                      (''bad.txt'', [0x68, 0x65, 0x6C, 0x6C, 0x6F, 0x21])] ''s.cbor'' =
     Inr [0xD2, 0xA1] \<and>
   display memMapFs (demoDecoders\<lparr>FromCBOR := (\<lambda>b. Inl ''not called'')\<rparr>) demoRegistry
     [(''s.cbor'', [0xD2, 0xA1]), (''u.cbor'', [0xA1]),
      (''bad.txt'', [0x68, 0x65, 0x6C, 0x6C, 0x6F, 0x21])] ''s.cbor'' False =
     ([''Meta:'', ''signer'', ''Corim:'', ''{}''], None) \<and>
   display memMapFs demoDecoders demoRegistry
     [(''s.cbor'', [0xD2, 0xA1]), (''u.cbor'', [0xA1]),
      (''bad.txt'', [0x68, 0x65, 0x6C, 0x6C, 0x6F, 0x21])] ''u.cbor'' False =
     ([''Corim:'', ''{}''], None) \<and>
   display memMapFs strictJSONDecoders demoRegistry
     [(''s.cbor'', [0xD2, 0xA1]), (''u.cbor'', [0xA1]),
      (''bad.txt'', [0x68, 0x65, 0x6C, 0x6C, 0x6F, 0x21])] ''u.cbor'' False =
     ([], Some ''error encoding unsigned CoRIM from u.cbor: json: unsupported value'') \<and>
   display memMapFs demoDecoders demoRegistry
     [(''s.cbor'', [0xD2, 0xA1]), (''u.cbor'', [0xA1]),
      (''bad.txt'', [0x68, 0x65, 0x6C, 0x6C, 0x6F, 0x21])] ''bad.txt'' False =
     ([], Some (''error decoding CoRIM (signed or unsigned) from bad.txt: '' @
                ''expected map (CBOR Major Type 5), found Major Type 3''))"
  using
    display_dispatch
      [of memMapFs "[(''s.cbor'', [0xD2, 0xA1]), (''u.cbor'', [0xA1]),
                     (''bad.txt'', [0x68, 0x65, 0x6C, 0x6C, 0x6F, 0x21])]" "''s.cbor''"
          "[0xD2, 0xA1]" demoDecoders demoRegistry False]
    display_dispatch
      [of memMapFs "[(''s.cbor'', [0xD2, 0xA1]), (''u.cbor'', [0xA1]),
                     (''bad.txt'', [0x68, 0x65, 0x6C, 0x6C, 0x6F, 0x21])]" "''u.cbor''"
          "[0xA1]" demoDecoders demoRegistry False]
    display_dispatch
      [of memMapFs "[(''s.cbor'', [0xD2, 0xA1]), (''u.cbor'', [0xA1]),
                     (''bad.txt'', [0x68, 0x65, 0x6C, 0x6C, 0x6F, 0x21])]" "''u.cbor''"
          "[0xA1]" strictJSONDecoders demoRegistry False]
    display_dispatch
      [of memMapFs "[(''s.cbor'', [0xD2, 0xA1]), (''u.cbor'', [0xA1]),
                     (''bad.txt'', [0x68, 0x65, 0x6C, 0x6C, 0x6F, 0x21])]" "''bad.txt''"
          "[0x68, 0x65, 0x6C, 0x6C, 0x6F, 0x21]" demoDecoders demoRegistry False]
  by (simp add: demo_defs strictJSONDecoders_def)

text \<open>
  The claim as the spec states it fails where the JSON encoder rejects the manifest:
  the signed decoding fails, the unsigned decoding succeeds, and \<^verbatim>\<open>display\<close> returns an
  error.
\<close>

theorem display_dispatch_counterexample:
  "FromCOSE strictJSONDecoders [0xA1] =
     Inl ''failed CBOR decoding for COSE-Sign1 signed CoRIM'' \<and>
   FromCBOR strictJSONDecoders [0xA1] = Inr \<lparr>Tags = [], Rest = ()\<rparr> \<and>
   display memMapFs strictJSONDecoders demoRegistry [(''u.cbor'', [0xA1])] ''u.cbor'' False =
     ([], Some ''error encoding unsigned CoRIM from u.cbor: json: unsupported value'')"
  by (simp add: demo_defs strictJSONDecoders_def)

text \<open>
  C10. \<^verbatim>\<open>display\<close> returns an error exactly when the file cannot be read, or both
  decodings fail, or the JSON encoder fails on what was decoded (the Meta or the
  manifest of a signed CoRIM, the manifest of an unsigned one). The error does not
  depend on \<^verbatim>\<open>--show-tags\<close> or on the tag identifiers and printers: the expansion of
  the tags returns lines only.
\<close>

theorem display_error_iff:
  "((\<exists>e. snd (display F D R fs f t) = Some e) =
    ((\<exists>e. ReadFile F fs f = Inl e) \<or>
     (\<exists>b. ReadFile F fs f = Inr b \<and>
        ((\<exists>e e'. FromCOSE D b = Inl e \<and> FromCBOR D b = Inl e') \<or>
         (\<exists>s. FromCOSE D b = Inr s \<and>
            (isl (MarshalIndentMeta D (Meta s)) \<or>
             isl (MarshalIndentCorim D (UnsignedCorim s)))) \<or>
         (\<exists>e u. FromCOSE D b = Inl e \<and> FromCBOR D b = Inr u \<and>
            isl (MarshalIndentCorim D u)))))) \<and>
   snd (display F D R fs f t) = snd (display F D R' fs f t')"
proof
  show "(\<exists>e. snd (display F D R fs f t) = Some e) =
    ((\<exists>e. ReadFile F fs f = Inl e) \<or>
     (\<exists>b. ReadFile F fs f = Inr b \<and>
        ((\<exists>e e'. FromCOSE D b = Inl e \<and> FromCBOR D b = Inl e') \<or>
         (\<exists>s. FromCOSE D b = Inr s \<and>
            (isl (MarshalIndentMeta D (Meta s)) \<or>
             isl (MarshalIndentCorim D (UnsignedCorim s)))) \<or>
         (\<exists>e u. FromCOSE D b = Inl e \<and> FromCBOR D b = Inr u \<and>
            isl (MarshalIndentCorim D u)))))"
    by (auto simp: display_def isl_def split: sum.splits)
  show "snd (display F D R fs f t) = snd (display F D R' fs f t')"
    by (simp add: display_def split: sum.splits)
qed

section \<open>Creating a CoRIM\<close>

subsection \<open>Usage errors\<close>

text \<open>
  C6, as the code has it. The template is checked first: when no template is named,
  the command returns \<^verbatim>\<open>no CoRIM template supplied\<close>, whatever else is given. When a
  template is named: with no file and no directory given for any of the three kinds,
  the command returns \<^verbatim>\<open>no CoMID, CoSWID or CoTS files or folders supplied\<close>, whatever
  the filesystem holds; with some given that resolve to no file at all, it returns
  \<^verbatim>\<open>no CoMID, CoSWID or CoTS files found\<close>. In all three cases no line is printed and
  the filesystem is left as it was.
\<close>

theorem create_usage_errors:
  "(corimCreateCorimFile fl = None \<or> corimCreateCorimFile fl = Some '''' \<longrightarrow>
      corimCreateRun F B fs fl = (fs, [], Some ''no CoRIM template supplied'')) \<and>
   ((\<exists>t. corimCreateCorimFile fl = Some t \<and> t \<noteq> []) \<and>
    corimCreateComidDirs fl = [] \<and> corimCreateComidFiles fl = [] \<and>
    corimCreateCoswidDirs fl = [] \<and> corimCreateCoswidFiles fl = [] \<and>
    corimCreateCotsDirs fl = [] \<and> corimCreateCotsFiles fl = [] \<longrightarrow>
      corimCreateRun F B fs fl =
        (fs, [], Some ''no CoMID, CoSWID or CoTS files or folders supplied'')) \<and>
   ((\<exists>t. corimCreateCorimFile fl = Some t \<and> t \<noteq> []) \<and>
    \<not> (corimCreateComidDirs fl = [] \<and> corimCreateComidFiles fl = [] \<and>
       corimCreateCoswidDirs fl = [] \<and> corimCreateCoswidFiles fl = [] \<and>
       corimCreateCotsDirs fl = [] \<and> corimCreateCotsFiles fl = []) \<and>
    filesList F fs (corimCreateComidFiles fl) (corimCreateComidDirs fl) ''.cbor'' = [] \<and>
    filesList F fs (corimCreateCoswidFiles fl) (corimCreateCoswidDirs fl) ''.cbor'' = [] \<and>
    filesList F fs (corimCreateCotsFiles fl) (corimCreateCotsDirs fl) ''.cbor'' = [] \<longrightarrow>
      corimCreateRun F B fs fl = (fs, [], Some ''no CoMID, CoSWID or CoTS files found''))"
  by (auto simp: corimCreateRun_def checkCorimCreateArgs_def)

theorem create_usage_errors_witness:
  "corimCreateRun memMapFs demoBuilders [(''t.json'', [0x7B, 0x7D])]
     \<lparr>corimCreateCorimFile = Some ''t.json'',
      corimCreateCoswidFiles = [], corimCreateCoswidDirs = [],
      corimCreateComidFiles = [], corimCreateComidDirs = [],
      corimCreateCotsFiles = [], corimCreateCotsDirs = [],
      corimCreateOutputFile = None\<rparr> =
     ([(''t.json'', [0x7B, 0x7D])], [],
      Some ''no CoMID, CoSWID or CoTS files or folders supplied'') \<and>
   filesList memMapFs [(''t.json'', [0x7B, 0x7D])] [''absent.cbor''] [] ''.cbor'' = [] \<and>
   corimCreateRun memMapFs demoBuilders [(''t.json'', [0x7B, 0x7D])]
     \<lparr>corimCreateCorimFile = Some ''t.json'',
      corimCreateCoswidFiles = [], corimCreateCoswidDirs = [],
      corimCreateComidFiles = [''absent.cbor''], corimCreateComidDirs = [],
      corimCreateCotsFiles = [], corimCreateCotsDirs = [],
      corimCreateOutputFile = None\<rparr> =
     ([(''t.json'', [0x7B, 0x7D])], [], Some ''no CoMID, CoSWID or CoTS files found'') \<and>
   corimCreateRun memMapFs demoBuilders [(''m.cbor'', [0xA1, 0x01])]
     \<lparr>corimCreateCorimFile = None,
      corimCreateCoswidFiles = [], corimCreateCoswidDirs = [],
      corimCreateComidFiles = [''m.cbor''], corimCreateComidDirs = [],
      corimCreateCotsFiles = [], corimCreateCotsDirs = [],
      corimCreateOutputFile = None\<rparr> =
     ([(''m.cbor'', [0xA1, 0x01])], [], Some ''no CoRIM template supplied'')"
  using
    create_usage_errors
      [of "\<lparr>corimCreateCorimFile = Some ''t.json'',
            corimCreateCoswidFiles = [], corimCreateCoswidDirs = [],
            corimCreateComidFiles = [], corimCreateComidDirs = [],
            corimCreateCotsFiles = [], corimCreateCotsDirs = [],
            corimCreateOutputFile = None\<rparr>"
          memMapFs demoBuilders "[(''t.json'', [0x7B, 0x7D])]"]
    create_usage_errors
      [of "\<lparr>corimCreateCorimFile = Some ''t.json'',
            corimCreateCoswidFiles = [], corimCreateCoswidDirs = [],
            corimCreateComidFiles = [''absent.cbor''], corimCreateComidDirs = [],
            corimCreateCotsFiles = [], corimCreateCotsDirs = [],
            corimCreateOutputFile = None\<rparr>"
          memMapFs demoBuilders "[(''t.json'', [0x7B, 0x7D])]"]
    create_usage_errors
      [of "\<lparr>corimCreateCorimFile = None,
            corimCreateCoswidFiles = [], corimCreateCoswidDirs = [],
            corimCreateComidFiles = [''m.cbor''], corimCreateComidDirs = [],
            corimCreateCotsFiles = [], corimCreateCotsDirs = [],
            corimCreateOutputFile = None\<rparr>"
          memMapFs demoBuilders "[(''m.cbor'', [0xA1, 0x01])]"]
  by (simp add: memMapFs_def)

text \<open>
  The claim as the spec states it fails when no template is named and no artifact is
  given: the message is that of the missing template.
\<close>

theorem create_usage_errors_counterexample:
  "corimCreateRun memMapFs demoBuilders []
     \<lparr>corimCreateCorimFile = Some '''',
      corimCreateCoswidFiles = [], corimCreateCoswidDirs = [],
      corimCreateComidFiles = [], corimCreateComidDirs = [],
      corimCreateCotsFiles = [], corimCreateCotsDirs = [],
      corimCreateOutputFile = Some ''''\<rparr> =
     ([], [], Some ''no CoRIM template supplied'')"
  by (simp add: corimCreateRun_def checkCorimCreateArgs_def)

subsection \<open>The three loops\<close>

lemma appendComids_read:
  "appendComids F B fs c files = Inr c' \<Longrightarrow>
   \<forall>f\<in>set files. \<exists>b m. ReadFile F fs f = Inr b \<and> ComidFromCBOR B b = Inr m"
  by (induction files arbitrary: c) (auto split: sum.splits option.splits)

lemma appendCoswids_read:
  "appendCoswids F B fs c files = Inr c' \<Longrightarrow>
   \<forall>f\<in>set files. \<exists>b m. ReadFile F fs f = Inr b \<and> CoswidFromCBOR B b = Inr m"
  by (induction files arbitrary: c) (auto split: sum.splits option.splits)

lemma appendCots_read:
  "appendCots F B fs c files = Inr c' \<Longrightarrow>
   \<forall>f\<in>set files. \<exists>b m. ReadFile F fs f = Inr b \<and> CotsFromCBOR B b = Inr m"
  by (induction files arbitrary: c) (auto split: sum.splits option.splits)

lemma appendComids_Tags:
  assumes "\<And>c m c'. AddComid B c m = Some c' \<Longrightarrow> Tags c' = Tags c @ [tag @ enc m]"
    and "appendComids F B fs c files = Inr c'"
  shows "Tags c' =
         Tags c @ map (\<lambda>f. tag @ enc (projr (ComidFromCBOR B (projr (ReadFile F fs f))))) files"
  using assms(2)
proof (induction files arbitrary: c)
  case Nil
  then show ?case by simp
next
  case (Cons f files)
  from Cons.prems obtain b m c1 where
    b: "ReadFile F fs f = Inr b" and m: "ComidFromCBOR B b = Inr m" and
    c1: "AddComid B c m = Some c1" and rest: "appendComids F B fs c1 files = Inr c'"
    by (auto split: sum.splits option.splits)
  from assms(1) [OF c1] Cons.IH [OF rest] b m show ?case by simp
qed

lemma appendCoswids_Tags:
  assumes "\<And>c m c'. AddCoswid B c m = Some c' \<Longrightarrow> Tags c' = Tags c @ [tag @ enc m]"
    and "appendCoswids F B fs c files = Inr c'"
  shows "Tags c' =
         Tags c @ map (\<lambda>f. tag @ enc (projr (CoswidFromCBOR B (projr (ReadFile F fs f))))) files"
  using assms(2)
proof (induction files arbitrary: c)
  case Nil
  then show ?case by simp
next
  case (Cons f files)
  from Cons.prems obtain b m c1 where
    b: "ReadFile F fs f = Inr b" and m: "CoswidFromCBOR B b = Inr m" and
    c1: "AddCoswid B c m = Some c1" and rest: "appendCoswids F B fs c1 files = Inr c'"
    by (auto split: sum.splits option.splits)
  from assms(1) [OF c1] Cons.IH [OF rest] b m show ?case by simp
qed

lemma appendCots_Tags:
  assumes "\<And>c m c'. AddCots B c m = Some c' \<Longrightarrow> Tags c' = Tags c @ [tag @ enc m]"
    and "appendCots F B fs c files = Inr c'"
  shows "Tags c' =
         Tags c @ map (\<lambda>f. tag @ enc (projr (CotsFromCBOR B (projr (ReadFile F fs f))))) files"
  using assms(2)
proof (induction files arbitrary: c)
  case Nil
  then show ?case by simp
next
  case (Cons f files)
  from Cons.prems obtain b m c1 where
    b: "ReadFile F fs f = Inr b" and m: "CotsFromCBOR B b = Inr m" and
    c1: "AddCots B c m = Some c1" and rest: "appendCots F B fs c1 files = Inr c'"
    by (auto split: sum.splits option.splits)
  from assms(1) [OF c1] Cons.IH [OF rest] b m show ?case by simp
qed

lemma assembleCorim_Inr:
  assumes "assembleCorim F B fs tmplFile comidFiles coswidFiles cotsFiles = Inr c"
  obtains tmplData c0 c1 c2 where
    "ReadFile F fs tmplFile = Inr tmplData" and "FromJSON B tmplData = Inr c0" and
    "appendComids F B fs c0 comidFiles = Inr c1" and
    "appendCoswids F B fs c1 coswidFiles = Inr c2" and
    "appendCots F B fs c2 cotsFiles = Inr c"
  using assms by (auto simp: assembleCorim_def split: sum.splits)

lemma appendComids_append:
  "appendComids F B fs c (pre @ post) =
   (case appendComids F B fs c pre of
      Inl e \<Rightarrow> Inl e
    | Inr cp \<Rightarrow> appendComids F B fs cp post)"
  by (induction pre arbitrary: c) (auto split: sum.splits option.splits)

lemma appendCoswids_append:
  "appendCoswids F B fs c (pre @ post) =
   (case appendCoswids F B fs c pre of
      Inl e \<Rightarrow> Inl e
    | Inr cp \<Rightarrow> appendCoswids F B fs cp post)"
  by (induction pre arbitrary: c) (auto split: sum.splits option.splits)

lemma appendCots_append:
  "appendCots F B fs c (pre @ post) =
   (case appendCots F B fs c pre of
      Inl e \<Rightarrow> Inl e
    | Inr cp \<Rightarrow> appendCots F B fs cp post)"
  by (induction pre arbitrary: c) (auto split: sum.splits option.splits)

text \<open>
  When the files before the \<open>i\<close>-th have been appended, the loop goes on from the
  manifest reached, with the \<open>i\<close>-th file.
\<close>

lemma appendComids_at:
  assumes "i < length files" and "appendComids F B fs c (take i files) = Inr cp"
  shows "appendComids F B fs c files = appendComids F B fs cp (files ! i # drop (Suc i) files)"
proof -
  have "appendComids F B fs c (take i files @ files ! i # drop (Suc i) files) =
        appendComids F B fs cp (files ! i # drop (Suc i) files)"
    unfolding appendComids_append using assms(2) by simp
  then show ?thesis using id_take_nth_drop [OF assms(1)] by simp
qed

lemma appendCoswids_at:
  assumes "i < length files" and "appendCoswids F B fs c (take i files) = Inr cp"
  shows "appendCoswids F B fs c files = appendCoswids F B fs cp (files ! i # drop (Suc i) files)"
proof -
  have "appendCoswids F B fs c (take i files @ files ! i # drop (Suc i) files) =
        appendCoswids F B fs cp (files ! i # drop (Suc i) files)"
    unfolding appendCoswids_append using assms(2) by simp
  then show ?thesis using id_take_nth_drop [OF assms(1)] by simp
qed

lemma appendCots_at:
  assumes "i < length files" and "appendCots F B fs c (take i files) = Inr cp"
  shows "appendCots F B fs c files = appendCots F B fs cp (files ! i # drop (Suc i) files)"
proof -
  have "appendCots F B fs c (take i files @ files ! i # drop (Suc i) files) =
        appendCots F B fs cp (files ! i # drop (Suc i) files)"
    unfolding appendCots_append using assms(2) by simp
  then show ?thesis using id_take_nth_drop [OF assms(1)] by simp
qed

text \<open>
  A loop that succeeds has gone through a chain of manifests, one add operation from
  each to the next.
\<close>

lemma appendComids_chain:
  "appendComids F B fs c files = Inr c' \<Longrightarrow>
   \<exists>cs. length cs = Suc (length files) \<and> cs ! 0 = c \<and> cs ! length files = c' \<and>
        (\<forall>i<length files. \<exists>b m.
           ReadFile F fs (files ! i) = Inr b \<and> ComidFromCBOR B b = Inr m \<and>
           AddComid B (cs ! i) m = Some (cs ! Suc i))"
proof (induction files arbitrary: c)
  case Nil
  then have "length [c] = Suc (length ([] :: string list)) \<and> [c] ! 0 = c \<and> [c] ! 0 = c'"
    by simp
  then show ?case by (intro exI [of _ "[c]"]) simp
next
  case (Cons f files)
  from Cons.prems obtain b m c1 where
    b: "ReadFile F fs f = Inr b" and m: "ComidFromCBOR B b = Inr m" and
    c1: "AddComid B c m = Some c1" and rest: "appendComids F B fs c1 files = Inr c'"
    by (auto split: sum.splits option.splits)
  from Cons.IH [OF rest] obtain cs where
    cs: "length cs = Suc (length files)" "cs ! 0 = c1" "cs ! length files = c'"
      "\<forall>i<length files. \<exists>b m.
         ReadFile F fs (files ! i) = Inr b \<and> ComidFromCBOR B b = Inr m \<and>
         AddComid B (cs ! i) m = Some (cs ! Suc i)"
    by blast
  have "\<forall>i<length (f # files). \<exists>b m.
          ReadFile F fs ((f # files) ! i) = Inr b \<and> ComidFromCBOR B b = Inr m \<and>
          AddComid B ((c # cs) ! i) m = Some ((c # cs) ! Suc i)"
  proof (intro allI impI)
    fix i assume "i < length (f # files)"
    then show "\<exists>b m. ReadFile F fs ((f # files) ! i) = Inr b \<and> ComidFromCBOR B b = Inr m \<and>
                 AddComid B ((c # cs) ! i) m = Some ((c # cs) ! Suc i)"
      using b m c1 cs by (cases i) auto
  qed
  with cs show ?case by (intro exI [of _ "c # cs"]) simp
qed

lemma appendCoswids_chain:
  "appendCoswids F B fs c files = Inr c' \<Longrightarrow>
   \<exists>cs. length cs = Suc (length files) \<and> cs ! 0 = c \<and> cs ! length files = c' \<and>
        (\<forall>i<length files. \<exists>b s.
           ReadFile F fs (files ! i) = Inr b \<and> CoswidFromCBOR B b = Inr s \<and>
           AddCoswid B (cs ! i) s = Some (cs ! Suc i))"
proof (induction files arbitrary: c)
  case Nil
  then have "length [c] = Suc (length ([] :: string list)) \<and> [c] ! 0 = c \<and> [c] ! 0 = c'"
    by simp
  then show ?case by (intro exI [of _ "[c]"]) simp
next
  case (Cons f files)
  from Cons.prems obtain b m c1 where
    b: "ReadFile F fs f = Inr b" and m: "CoswidFromCBOR B b = Inr m" and
    c1: "AddCoswid B c m = Some c1" and rest: "appendCoswids F B fs c1 files = Inr c'"
    by (auto split: sum.splits option.splits)
  from Cons.IH [OF rest] obtain cs where
    cs: "length cs = Suc (length files)" "cs ! 0 = c1" "cs ! length files = c'"
      "\<forall>i<length files. \<exists>b s.
         ReadFile F fs (files ! i) = Inr b \<and> CoswidFromCBOR B b = Inr s \<and>
         AddCoswid B (cs ! i) s = Some (cs ! Suc i)"
    by blast
  have "\<forall>i<length (f # files). \<exists>b s.
          ReadFile F fs ((f # files) ! i) = Inr b \<and> CoswidFromCBOR B b = Inr s \<and>
          AddCoswid B ((c # cs) ! i) s = Some ((c # cs) ! Suc i)"
  proof (intro allI impI)
    fix i assume "i < length (f # files)"
    then show "\<exists>b s. ReadFile F fs ((f # files) ! i) = Inr b \<and> CoswidFromCBOR B b = Inr s \<and>
                 AddCoswid B ((c # cs) ! i) s = Some ((c # cs) ! Suc i)"
      using b m c1 cs by (cases i) auto
  qed
  with cs show ?case by (intro exI [of _ "c # cs"]) simp
qed

lemma appendCots_chain:
  "appendCots F B fs c files = Inr c' \<Longrightarrow>
   \<exists>cs. length cs = Suc (length files) \<and> cs ! 0 = c \<and> cs ! length files = c' \<and>
        (\<forall>i<length files. \<exists>b t.
           ReadFile F fs (files ! i) = Inr b \<and> CotsFromCBOR B b = Inr t \<and>
           AddCots B (cs ! i) t = Some (cs ! Suc i))"
proof (induction files arbitrary: c)
  case Nil
  then have "length [c] = Suc (length ([] :: string list)) \<and> [c] ! 0 = c \<and> [c] ! 0 = c'"
    by simp
  then show ?case by (intro exI [of _ "[c]"]) simp
next
  case (Cons f files)
  from Cons.prems obtain b m c1 where
    b: "ReadFile F fs f = Inr b" and m: "CotsFromCBOR B b = Inr m" and
    c1: "AddCots B c m = Some c1" and rest: "appendCots F B fs c1 files = Inr c'"
    by (auto split: sum.splits option.splits)
  from Cons.IH [OF rest] obtain cs where
    cs: "length cs = Suc (length files)" "cs ! 0 = c1" "cs ! length files = c'"
      "\<forall>i<length files. \<exists>b t.
         ReadFile F fs (files ! i) = Inr b \<and> CotsFromCBOR B b = Inr t \<and>
         AddCots B (cs ! i) t = Some (cs ! Suc i)"
    by blast
  have "\<forall>i<length (f # files). \<exists>b t.
          ReadFile F fs ((f # files) ! i) = Inr b \<and> CotsFromCBOR B b = Inr t \<and>
          AddCots B ((c # cs) ! i) t = Some ((c # cs) ! Suc i)"
  proof (intro allI impI)
    fix i assume "i < length (f # files)"
    then show "\<exists>b t. ReadFile F fs ((f # files) ! i) = Inr b \<and> CotsFromCBOR B b = Inr t \<and>
                 AddCots B ((c # cs) ! i) t = Some ((c # cs) ! Suc i)"
      using b m c1 cs by (cases i) auto
  qed
  with cs show ?case by (intro exI [of _ "c # cs"]) simp
qed

text \<open>The result of \<^verbatim>\<open>corimTemplateToCBOR\<close> when the assembly fails.\<close>

lemma create_assembly_error:
  assumes "assembleCorim F B fs tmplFile comidFiles coswidFiles cotsFiles = Inl e"
  shows "corimTemplateToCBOR F B fs tmplFile comidFiles coswidFiles cotsFiles outputFile =
         (fs, Inl e)"
  using assms by (simp add: corimTemplateToCBOR_def)

lemma assembleCorim_loops:
  assumes "ReadFile F fs tmplFile = Inr tmplData" and "FromJSON B tmplData = Inr c0"
  shows "assembleCorim F B fs tmplFile comidFiles coswidFiles cotsFiles =
         (case appendComids F B fs c0 comidFiles of
            Inl e \<Rightarrow> Inl e
          | Inr c1 \<Rightarrow>
              (case appendCoswids F B fs c1 coswidFiles of
                 Inl e \<Rightarrow> Inl e
               | Inr c2 \<Rightarrow> appendCots F B fs c2 cotsFiles))"
  using assms by (simp add: assembleCorim_def)

lemma appendComids_rejected:
  assumes "i < length files" and "appendComids F B fs c (take i files) = Inr cp"
    and "ReadFile F fs (files ! i) = Inr b" and "ComidFromCBOR B b = Inr m"
    and "AddComid B cp m = None"
  shows "appendComids F B fs c files =
         Inl (''error adding CoMID from '' @ files ! i @ '' (check its validity using the '' @
              Quote B ''comid validate'' @ '' sub-command)'')"
  unfolding appendComids_at [OF assms(1,2)] using assms(3-5) by simp

lemma appendCoswids_rejected:
  assumes "i < length files" and "appendCoswids F B fs c (take i files) = Inr cp"
    and "ReadFile F fs (files ! i) = Inr b" and "CoswidFromCBOR B b = Inr s"
    and "AddCoswid B cp s = None"
  shows "appendCoswids F B fs c files = Inl (''error adding CoSWID from '' @ files ! i)"
  unfolding appendCoswids_at [OF assms(1,2)] using assms(3-5) by simp

lemma appendCots_rejected:
  assumes "i < length files" and "appendCots F B fs c (take i files) = Inr cp"
    and "ReadFile F fs (files ! i) = Inr b" and "CotsFromCBOR B b = Inr t"
    and "AddCots B cp t = None"
  shows "appendCots F B fs c files = Inl (''error adding CoTS from '' @ files ! i)"
  unfolding appendCots_at [OF assms(1,2)] using assms(3-5) by simp

lemma create_comids_error:
  assumes "ReadFile F fs tmplFile = Inr tmplData" and "FromJSON B tmplData = Inr c0"
    and "appendComids F B fs c0 comidFiles = Inl e"
  shows "corimTemplateToCBOR F B fs tmplFile comidFiles coswidFiles cotsFiles outputFile =
         (fs, Inl e)"
  by (rule create_assembly_error) (simp add: assembleCorim_loops [OF assms(1,2)] assms(3))

lemma create_coswids_error:
  assumes "ReadFile F fs tmplFile = Inr tmplData" and "FromJSON B tmplData = Inr c0"
    and "appendComids F B fs c0 comidFiles = Inr c1"
    and "appendCoswids F B fs c1 coswidFiles = Inl e"
  shows "corimTemplateToCBOR F B fs tmplFile comidFiles coswidFiles cotsFiles outputFile =
         (fs, Inl e)"
  by (rule create_assembly_error) (simp add: assembleCorim_loops [OF assms(1,2)] assms(3,4))

lemma create_cots_error:
  assumes "ReadFile F fs tmplFile = Inr tmplData" and "FromJSON B tmplData = Inr c0"
    and "appendComids F B fs c0 comidFiles = Inr c1"
    and "appendCoswids F B fs c1 coswidFiles = Inr c2"
    and "appendCots F B fs c2 cotsFiles = Inl e"
  shows "corimTemplateToCBOR F B fs tmplFile comidFiles coswidFiles cotsFiles outputFile =
         (fs, Inl e)"
  by (rule create_assembly_error) (simp add: assembleCorim_loops [OF assms(1,2)] assms(3-5))

subsection \<open>Two evaluations\<close>

lemma demo_default_name: "makeFileName '''' ''t.json'' ''.cbor'' = ''t.cbor''"
  by (simp add: makeFileName_def pathExt_def pathBase_def Let_def)

lemma demo_assembled:
  "assembleCorim memMapFs demoBuilders
     [(''t.json'', [0x7B, 0x7D]), (''m.cbor'', [0xA1, 0x01])] ''t.json'' [''m.cbor''] [] [] =
   Inr \<lparr>Tags = [[0xD9, 0x01, 0xFA, 0xA1, 0x01]], Rest = ()\<rparr>"
  by (simp add: assembleCorim_def memMapFs_def demoBuilders_def demoArtifact_def demoAdd_def)

subsection \<open>Atomicity\<close>

text \<open>
  C3. \<^verbatim>\<open>corimTemplateToCBOR\<close> either returns an error and leaves the filesystem as it
  was, or has called \<^verbatim>\<open>afero.WriteFile\<close>, once, after every step has succeeded: the
  template was read and decoded; every CoMID, CoSWID and CoTS file was read and decoded;
  every add operation succeeded, each on the manifest that the one before it returned,
  the CoMIDs first, then the CoSWIDs, then the CoTS; \<^verbatim>\<open>Valid\<close> accepted the manifest
  reached and \<^verbatim>\<open>ToCBOR\<close> encoded it. \<^verbatim>\<open>Valid\<close> comes before \<^verbatim>\<open>ToCBOR\<close>: a manifest that
  \<^verbatim>\<open>Valid\<close> rejects gives the validation error whatever \<^verbatim>\<open>ToCBOR\<close> would do, and a
  failure of the assembly gives its error whatever \<^verbatim>\<open>Valid\<close> and \<^verbatim>\<open>ToCBOR\<close> would do.
  An add operation that returns nil, on the manifest reached when its file comes up,
  gives the error of that file and kind, and nothing is written.
\<close>

theorem create_atomic:
  assumes "corimTemplateToCBOR F B fs tmplFile comidFiles coswidFiles cotsFiles outputFile =
           (fs', r)"
  shows "((\<exists>e. r = Inl e \<and> fs' = fs) \<or>
          (\<exists>tmplData c0 c1 c2 c cs ss ts corimCBOR corimFile w.
             ReadFile F fs tmplFile = Inr tmplData \<and> FromJSON B tmplData = Inr c0 \<and>
             (\<forall>f\<in>set comidFiles. \<exists>b m. ReadFile F fs f = Inr b \<and> ComidFromCBOR B b = Inr m) \<and>
             (\<forall>f\<in>set coswidFiles. \<exists>b m. ReadFile F fs f = Inr b \<and> CoswidFromCBOR B b = Inr m) \<and>
             (\<forall>f\<in>set cotsFiles. \<exists>b m. ReadFile F fs f = Inr b \<and> CotsFromCBOR B b = Inr m) \<and>
             length cs = Suc (length comidFiles) \<and> cs ! 0 = c0 \<and>
             cs ! length comidFiles = c1 \<and>
             (\<forall>i<length comidFiles. \<exists>b m.
                ReadFile F fs (comidFiles ! i) = Inr b \<and> ComidFromCBOR B b = Inr m \<and>
                AddComid B (cs ! i) m = Some (cs ! Suc i)) \<and>
             length ss = Suc (length coswidFiles) \<and> ss ! 0 = c1 \<and>
             ss ! length coswidFiles = c2 \<and>
             (\<forall>i<length coswidFiles. \<exists>b s.
                ReadFile F fs (coswidFiles ! i) = Inr b \<and> CoswidFromCBOR B b = Inr s \<and>
                AddCoswid B (ss ! i) s = Some (ss ! Suc i)) \<and>
             length ts = Suc (length cotsFiles) \<and> ts ! 0 = c2 \<and>
             ts ! length cotsFiles = c \<and>
             (\<forall>i<length cotsFiles. \<exists>b t.
                ReadFile F fs (cotsFiles ! i) = Inr b \<and> CotsFromCBOR B b = Inr t \<and>
                AddCots B (ts ! i) t = Some (ts ! Suc i)) \<and>
             assembleCorim F B fs tmplFile comidFiles coswidFiles cotsFiles = Inr c \<and>
             Valid B c = None \<and> ToCBOR B c = Inr corimCBOR \<and>
             WriteFile F fs corimFile corimCBOR = (fs', w) \<and>
             r = (case w of
                    None \<Rightarrow> Inr corimFile
                  | Some e \<Rightarrow> Inl (''error saving CoRIM to file '' @ corimFile @ '': '' @ e)))) \<and>
         (\<forall>e. assembleCorim F B fs tmplFile comidFiles coswidFiles cotsFiles = Inl e \<longrightarrow>
              r = Inl e \<and> fs' = fs) \<and>
         (\<forall>c e. assembleCorim F B fs tmplFile comidFiles coswidFiles cotsFiles = Inr c \<and>
                Valid B c = Some e \<longrightarrow>
              r = Inl (''error validating CoRIM: '' @ e) \<and> fs' = fs) \<and>
         (\<forall>c e. assembleCorim F B fs tmplFile comidFiles coswidFiles cotsFiles = Inr c \<and>
                Valid B c = None \<and> ToCBOR B c = Inl e \<longrightarrow>
              r = Inl (''error encoding CoRIM to CBOR: '' @ e) \<and> fs' = fs) \<and>
         (\<forall>i tmplData c0 cp b m.
            i < length comidFiles \<and>
            ReadFile F fs tmplFile = Inr tmplData \<and> FromJSON B tmplData = Inr c0 \<and>
            appendComids F B fs c0 (take i comidFiles) = Inr cp \<and>
            ReadFile F fs (comidFiles ! i) = Inr b \<and> ComidFromCBOR B b = Inr m \<and>
            AddComid B cp m = None \<longrightarrow>
            r = Inl (''error adding CoMID from '' @ comidFiles ! i @
                     '' (check its validity using the '' @ Quote B ''comid validate'' @
                     '' sub-command)'') \<and>
            fs' = fs) \<and>
         (\<forall>i tmplData c0 c1 cp b s.
            i < length coswidFiles \<and>
            ReadFile F fs tmplFile = Inr tmplData \<and> FromJSON B tmplData = Inr c0 \<and>
            appendComids F B fs c0 comidFiles = Inr c1 \<and>
            appendCoswids F B fs c1 (take i coswidFiles) = Inr cp \<and>
            ReadFile F fs (coswidFiles ! i) = Inr b \<and> CoswidFromCBOR B b = Inr s \<and>
            AddCoswid B cp s = None \<longrightarrow>
            r = Inl (''error adding CoSWID from '' @ coswidFiles ! i) \<and> fs' = fs) \<and>
         (\<forall>i tmplData c0 c1 c2 cp b t.
            i < length cotsFiles \<and>
            ReadFile F fs tmplFile = Inr tmplData \<and> FromJSON B tmplData = Inr c0 \<and>
            appendComids F B fs c0 comidFiles = Inr c1 \<and>
            appendCoswids F B fs c1 coswidFiles = Inr c2 \<and>
            appendCots F B fs c2 (take i cotsFiles) = Inr cp \<and>
            ReadFile F fs (cotsFiles ! i) = Inr b \<and> CotsFromCBOR B b = Inr t \<and>
            AddCots B cp t = None \<longrightarrow>
            r = Inl (''error adding CoTS from '' @ cotsFiles ! i) \<and> fs' = fs)"
proof (intro conjI, goal_cases)
  case 1
  show ?case
  proof (cases "assembleCorim F B fs tmplFile comidFiles coswidFiles cotsFiles")
    case (Inl e)
    with assms show ?thesis by (auto simp: corimTemplateToCBOR_def)
  next
    case (Inr c)
    then obtain tmplData c0 c1 c2 where
      t: "ReadFile F fs tmplFile = Inr tmplData" "FromJSON B tmplData = Inr c0" and
      l1: "appendComids F B fs c0 comidFiles = Inr c1" and
      l2: "appendCoswids F B fs c1 coswidFiles = Inr c2" and
      l3: "appendCots F B fs c2 cotsFiles = Inr c"
      by (rule assembleCorim_Inr)
    note files = appendComids_read [OF l1] appendCoswids_read [OF l2] appendCots_read [OF l3]
    from appendComids_chain [OF l1] obtain cs where
      cs: "length cs = Suc (length comidFiles)" "cs ! 0 = c0" "cs ! length comidFiles = c1"
        "\<forall>i<length comidFiles. \<exists>b m.
           ReadFile F fs (comidFiles ! i) = Inr b \<and> ComidFromCBOR B b = Inr m \<and>
           AddComid B (cs ! i) m = Some (cs ! Suc i)"
      by blast
    from appendCoswids_chain [OF l2] obtain ss where
      ss: "length ss = Suc (length coswidFiles)" "ss ! 0 = c1" "ss ! length coswidFiles = c2"
        "\<forall>i<length coswidFiles. \<exists>b s.
           ReadFile F fs (coswidFiles ! i) = Inr b \<and> CoswidFromCBOR B b = Inr s \<and>
           AddCoswid B (ss ! i) s = Some (ss ! Suc i)"
      by blast
    from appendCots_chain [OF l3] obtain ts where
      ts: "length ts = Suc (length cotsFiles)" "ts ! 0 = c2" "ts ! length cotsFiles = c"
        "\<forall>i<length cotsFiles. \<exists>b t.
           ReadFile F fs (cotsFiles ! i) = Inr b \<and> CotsFromCBOR B b = Inr t \<and>
           AddCots B (ts ! i) t = Some (ts ! Suc i)"
      by blast
    show ?thesis
    proof (cases "Valid B c")
      case (Some e)
      with Inr assms show ?thesis by (auto simp: corimTemplateToCBOR_def)
    next
      case None
      show ?thesis
      proof (cases "ToCBOR B c")
        case (Inl e)
        with None Inr assms show ?thesis by (auto simp: corimTemplateToCBOR_def)
      next
        case enc: (Inr corimCBOR)
        obtain corimFile where cf:
          "(if outputFile = None \<or> outputFile = Some ''''
            then makeFileName '''' tmplFile ''.cbor'' else the outputFile) = corimFile"
          by simp
        obtain fs1 w where w: "WriteFile F fs corimFile corimCBOR = (fs1, w)"
          by (cases "WriteFile F fs corimFile corimCBOR")
        from assms [unfolded corimTemplateToCBOR_def Let_def cf] Inr None enc w have
          "fs1 = fs' \<and>
           r = (case w of
                  None \<Rightarrow> Inr corimFile
                | Some e \<Rightarrow> Inl (''error saving CoRIM to file '' @ corimFile @ '': '' @ e))"
          by (cases w) simp_all
        with w have
          "WriteFile F fs corimFile corimCBOR = (fs', w)" and
          "r = (case w of
                  None \<Rightarrow> Inr corimFile
                | Some e \<Rightarrow> Inl (''error saving CoRIM to file '' @ corimFile @ '': '' @ e))"
          by simp_all
        with t files cs ss ts Inr None enc show ?thesis
          by (intro disjI2 exI conjI)
      qed
    qed
  qed
next
  case 2
  show ?case using assms by (auto simp: corimTemplateToCBOR_def)
next
  case 3
  show ?case using assms by (auto simp: corimTemplateToCBOR_def)
next
  case 4
  show ?case using assms by (auto simp: corimTemplateToCBOR_def)
next
  case 5
  show ?case
  proof (intro allI impI, elim conjE, goal_cases)
    case (1 i tmplData c0 cp b m)
    from create_comids_error [OF 1(2,3) appendComids_rejected [OF 1(1,4,5,6,7)]] assms
    show ?case by simp
  qed
next
  case 6
  show ?case
  proof (intro allI impI, elim conjE, goal_cases)
    case (1 i tmplData c0 c1 cp b s)
    from create_coswids_error [OF 1(2,3,4) appendCoswids_rejected [OF 1(1,5,6,7,8)]] assms
    show ?case by simp
  qed
next
  case 7
  show ?case
  proof (intro allI impI, elim conjE, goal_cases)
    case (1 i tmplData c0 c1 c2 cp b t)
    from create_cots_error [OF 1(2,3,4,5) appendCots_rejected [OF 1(1,6,7,8,9)]] assms
    show ?case by simp
  qed
qed

lemma demo_rejected:
  "corimTemplateToCBOR memMapFs demoBuilders
     [(''t.json'', [0x7B, 0x7D]), (''bad.cbor'', [0x00])]
     ''t.json'' [''bad.cbor''] [] [] (Some ''o.cbor'') =
   ([(''t.json'', [0x7B, 0x7D]), (''bad.cbor'', [0x00])],
    Inl (''error adding CoMID from bad.cbor (check its validity using the '' @
         [CHR 0x22] @ ''comid validate'' @ [CHR 0x22] @ '' sub-command)''))"
  by (simp add: corimTemplateToCBOR_def assembleCorim_def memMapFs_def demoBuilders_def
        demoArtifact_def demoAdd_def)

text \<open>
  A run that writes the file; a run where the second CoMID file is missing; and a run
  where the add operation rejects the only CoMID: in the last two the error is returned
  and the filesystem is the one the run started from.
\<close>

theorem create_atomic_witness:
  "corimTemplateToCBOR memMapFs demoBuilders
     [(''t.json'', [0x7B, 0x7D]), (''m.cbor'', [0xA1, 0x01])]
     ''t.json'' [''m.cbor''] [] [] None =
     ([(''t.cbor'', [0xA1, 5, 0xD9, 0x01, 0xFA, 0xA1, 0x01]),
       (''t.json'', [0x7B, 0x7D]), (''m.cbor'', [0xA1, 0x01])], Inr ''t.cbor'') \<and>
   corimTemplateToCBOR memMapFs demoBuilders
     [(''t.json'', [0x7B, 0x7D]), (''m.cbor'', [0xA1, 0x01])]
     ''t.json'' [''m.cbor'', ''n.cbor''] [] [] None =
     ([(''t.json'', [0x7B, 0x7D]), (''m.cbor'', [0xA1, 0x01])],
      Inl ''error loading CoMID from n.cbor: open n.cbor: file does not exist'') \<and>
   corimTemplateToCBOR memMapFs demoBuilders
     [(''t.json'', [0x7B, 0x7D]), (''bad.cbor'', [0x00])]
     ''t.json'' [''bad.cbor''] [] [] (Some ''o.cbor'') =
     ([(''t.json'', [0x7B, 0x7D]), (''bad.cbor'', [0x00])],
      Inl (''error adding CoMID from bad.cbor (check its validity using the '' @
           [CHR 0x22] @ ''comid validate'' @ [CHR 0x22] @ '' sub-command)''))"
proof -
  have written:
    "corimTemplateToCBOR memMapFs demoBuilders
       [(''t.json'', [0x7B, 0x7D]), (''m.cbor'', [0xA1, 0x01])]
       ''t.json'' [''m.cbor''] [] [] None =
     ([(''t.cbor'', [0xA1, 5, 0xD9, 0x01, 0xFA, 0xA1, 0x01]),
       (''t.json'', [0x7B, 0x7D]), (''m.cbor'', [0xA1, 0x01])], Inr ''t.cbor'')"
    by (simp add: corimTemplateToCBOR_def demo_assembled demo_default_name)
      (simp add: demoBuilders_def demoValid_def joinTags_def memMapFs_def Let_def
         demo_default_name)
  have failed:
    "corimTemplateToCBOR memMapFs demoBuilders
       [(''t.json'', [0x7B, 0x7D]), (''m.cbor'', [0xA1, 0x01])]
       ''t.json'' [''m.cbor'', ''n.cbor''] [] [] None =
     ([(''t.json'', [0x7B, 0x7D]), (''m.cbor'', [0xA1, 0x01])],
      Inl ''error loading CoMID from n.cbor: open n.cbor: file does not exist'')"
    by (simp add: corimTemplateToCBOR_def assembleCorim_def memMapFs_def demoBuilders_def
          demoArtifact_def demoAdd_def)
  show ?thesis
    using create_atomic [OF written] create_atomic [OF failed] create_atomic [OF demo_rejected]
    by - (intro conjI written failed demo_rejected)
qed

subsection \<open>The order of the tags\<close>

text \<open>
  C9. Let the add operations of the library append one tag each, the identifier of the
  kind followed by the encoding of the artifact. Then the tags of the assembled manifest
  are those of the template, followed by one tag for each CoMID file in the order of
  the list, then one for each CoSWID file, then one for each CoTS file: the kinds are
  never interleaved, since the three lists reach the function apart.
\<close>

theorem artifacts_grouped_by_kind:
  assumes comid: "\<forall>c m c'. AddComid B c m = Some c' \<longrightarrow> Tags c' = Tags c @ [ComidTag R @ encM m]"
    and coswid: "\<forall>c s c'. AddCoswid B c s = Some c' \<longrightarrow> Tags c' = Tags c @ [CoswidTag R @ encS s]"
    and cots: "\<forall>c t c'. AddCots B c t = Some c' \<longrightarrow> Tags c' = Tags c @ [CotsTag R @ encT t]"
    and rd: "ReadFile F fs tmplFile = Inr tmplData"
    and js: "FromJSON B tmplData = Inr c0"
    and ok: "assembleCorim F B fs tmplFile comidFiles coswidFiles cotsFiles = Inr c"
  shows "Tags c =
         Tags c0 @
         map (\<lambda>f. ComidTag R @ encM (projr (ComidFromCBOR B (projr (ReadFile F fs f))))) comidFiles @
         map (\<lambda>f. CoswidTag R @ encS (projr (CoswidFromCBOR B (projr (ReadFile F fs f))))) coswidFiles @
         map (\<lambda>f. CotsTag R @ encT (projr (CotsFromCBOR B (projr (ReadFile F fs f))))) cotsFiles"
proof -
  from ok rd js obtain c1 c2 where
    l1: "appendComids F B fs c0 comidFiles = Inr c1" and
    l2: "appendCoswids F B fs c1 coswidFiles = Inr c2" and
    l3: "appendCots F B fs c2 cotsFiles = Inr c"
    by (auto elim!: assembleCorim_Inr)
  have "Tags c1 = Tags c0 @
          map (\<lambda>f. ComidTag R @ encM (projr (ComidFromCBOR B (projr (ReadFile F fs f))))) comidFiles"
    using comid l1 by (intro appendComids_Tags) auto
  moreover have "Tags c2 = Tags c1 @
          map (\<lambda>f. CoswidTag R @ encS (projr (CoswidFromCBOR B (projr (ReadFile F fs f))))) coswidFiles"
    using coswid l2 by (intro appendCoswids_Tags) auto
  moreover have "Tags c = Tags c2 @
          map (\<lambda>f. CotsTag R @ encT (projr (CotsFromCBOR B (projr (ReadFile F fs f))))) cotsFiles"
    using cots l3 by (intro appendCots_Tags) auto
  ultimately show ?thesis by simp
qed

theorem artifacts_grouped_by_kind_witness:
  "assembleCorim memMapFs demoBuilders
     [(''t.json'', [0x7B, 0x7D]), (''m1.cbor'', [0xA1, 0x01]), (''m2.cbor'', [0xA1, 0x02]),
      (''s.cbor'', [0xA1, 0x03]), (''k.cbor'', [0xA1, 0x04])]
     ''t.json'' [''m2.cbor'', ''m1.cbor''] [''s.cbor''] [''k.cbor''] =
     Inr \<lparr>Tags = [[0xD9, 0x01, 0xFA, 0xA1, 0x02], [0xD9, 0x01, 0xFA, 0xA1, 0x01],
                  [0xD9, 0x01, 0xF9, 0xA1, 0x03], [0xD9, 0x01, 0xFB, 0xA1, 0x04]],
          Rest = ()\<rparr> \<and>
   [[0xD9, 0x01, 0xFA, 0xA1, 0x02], [0xD9, 0x01, 0xFA, 0xA1, 0x01],
    [0xD9, 0x01, 0xF9, 0xA1, 0x03], [0xD9, 0x01, 0xFB, 0xA1, 0x04]] =
   map (\<lambda>f. ComidTag demoRegistry @
              projr (ComidFromCBOR demoBuilders (projr (ReadFile memMapFs
                [(''t.json'', [0x7B, 0x7D]), (''m1.cbor'', [0xA1, 0x01]),
                 (''m2.cbor'', [0xA1, 0x02]), (''s.cbor'', [0xA1, 0x03]),
                 (''k.cbor'', [0xA1, 0x04])] f))))
     [''m2.cbor'', ''m1.cbor''] @
   [CoswidTag demoRegistry @ [0xA1, 0x03]] @ [CotsTag demoRegistry @ [0xA1, 0x04]]"
proof -
  have comid: "\<forall>c m c'. AddComid demoBuilders c m = Some c' \<longrightarrow>
                 Tags c' = Tags c @ [ComidTag demoRegistry @ m]"
    by (auto simp: demoBuilders_def demoAdd_def demoRegistry_def split: if_splits)
  have coswid: "\<forall>c s c'. AddCoswid demoBuilders c s = Some c' \<longrightarrow>
                  Tags c' = Tags c @ [CoswidTag demoRegistry @ s]"
    by (auto simp: demoBuilders_def demoAdd_def demoRegistry_def split: if_splits)
  have cots: "\<forall>c t c'. AddCots demoBuilders c t = Some c' \<longrightarrow>
                Tags c' = Tags c @ [CotsTag demoRegistry @ t]"
    by (auto simp: demoBuilders_def demoAdd_def demoRegistry_def split: if_splits)
  have rd: "ReadFile memMapFs
              [(''t.json'', [0x7B, 0x7D]), (''m1.cbor'', [0xA1, 0x01]),
               (''m2.cbor'', [0xA1, 0x02]), (''s.cbor'', [0xA1, 0x03]),
               (''k.cbor'', [0xA1, 0x04])] ''t.json'' = Inr [0x7B, 0x7D]"
    by (simp add: memMapFs_def)
  have js: "FromJSON demoBuilders [0x7B, 0x7D] = Inr \<lparr>Tags = [], Rest = ()\<rparr>"
    by (simp add: demoBuilders_def)
  have ok: "assembleCorim memMapFs demoBuilders
              [(''t.json'', [0x7B, 0x7D]), (''m1.cbor'', [0xA1, 0x01]),
               (''m2.cbor'', [0xA1, 0x02]), (''s.cbor'', [0xA1, 0x03]),
               (''k.cbor'', [0xA1, 0x04])]
              ''t.json'' [''m2.cbor'', ''m1.cbor''] [''s.cbor''] [''k.cbor''] =
            Inr \<lparr>Tags = [[0xD9, 0x01, 0xFA, 0xA1, 0x02], [0xD9, 0x01, 0xFA, 0xA1, 0x01],
                         [0xD9, 0x01, 0xF9, 0xA1, 0x03], [0xD9, 0x01, 0xFB, 0xA1, 0x04]],
                 Rest = ()\<rparr>"
    by (simp add: assembleCorim_def memMapFs_def demoBuilders_def demoArtifact_def demoAdd_def)
  have "Tags \<lparr>Tags = [[0xD9, 0x01, 0xFA, 0xA1, 0x02], [0xD9, 0x01, 0xFA, 0xA1, 0x01],
                     [0xD9, 0x01, 0xF9, 0xA1, 0x03], [0xD9, 0x01, 0xFB, 0xA1, 0x04]],
             Rest = ()\<rparr> =
        [[0xD9, 0x01, 0xFA, 0xA1, 0x02], [0xD9, 0x01, 0xFA, 0xA1, 0x01],
         [0xD9, 0x01, 0xF9, 0xA1, 0x03], [0xD9, 0x01, 0xFB, 0xA1, 0x04 :: byte]]"
    using artifacts_grouped_by_kind [OF comid coswid cots rd js ok] by simp
  with ok show ?thesis by (simp add: demoRegistry_def memMapFs_def demoBuilders_def demoArtifact_def)
qed

section \<open>The form of the errors\<close>

lemma findAfter_sound: "findAfter p s = Some r \<Longrightarrow> \<exists>x. s = x @ p @ r"
proof (induction s)
  case Nil
  then show ?case by (simp split: if_splits)
next
  case (Cons c s)
  show ?case
  proof (cases "take (length p) (c # s) = p")
    case True
    with Cons.prems have "r = drop (length p) (c # s)" by simp
    with True have "c # s = [] @ p @ r"
      by (metis append_Nil append_take_drop_id)
    then show ?thesis by blast
  next
    case False
    with Cons.prems have "findAfter p s = Some r" by simp
    then obtain x where "s = x @ p @ r" using Cons.IH by blast
    then have "c # s = (c # x) @ p @ r" by simp
    then show ?thesis by blast
  qed
qed

lemma findAfter_complete: "\<exists>y. findAfter p (x @ p @ r) = Some (y @ r)"
proof (induction x)
  case Nil
  show ?case
  proof (cases "p @ r")
    case Nil
    then show ?thesis by simp
  next
    case (Cons a list)
    then have "take (length p) (a # list) = p" and "drop (length p) (a # list) = r"
      by (metis append_eq_conv_conj)+
    then have "findAfter p (a # list) = Some ([] @ r)" by simp
    with Cons show ?thesis by (metis append_Nil)
  qed
next
  case (Cons a x)
  show ?case
  proof (cases "take (length p) (a # x @ p @ r) = p")
    case True
    have "drop (length p) ((a # x @ p) @ r) = drop (length p) (a # x @ p) @ r"
      unfolding drop_append by simp
    then have "drop (length p) (a # x @ p @ r) = drop (length p) (a # x @ p) @ r"
      by simp
    with True show ?thesis by simp

  next
    case False
    with Cons.IH show ?thesis by simp
  qed
qed

lemma hasErrorForm_errorForm: "hasErrorForm (errorForm verb noun path cause)"
proof -
  obtain y1 where 1:
    "findAfter ''ing '' (verb @ ''ing '' @ (noun @ '' from '' @ path @ '': '' @ cause)) =
     Some (y1 @ (noun @ '' from '' @ path @ '': '' @ cause))"
    using findAfter_complete by blast
  obtain y2 where 2:
    "findAfter '' from '' ((y1 @ noun) @ '' from '' @ (path @ '': '' @ cause)) =
     Some (y2 @ (path @ '': '' @ cause))"
    using findAfter_complete by blast
  obtain y3 where 3:
    "findAfter '': '' ((y2 @ path) @ '': '' @ cause) = Some (y3 @ cause)"
    using findAfter_complete by blast
  have "drop 6 (errorForm verb noun path cause) =
        verb @ ''ing '' @ (noun @ '' from '' @ path @ '': '' @ cause)"
    by (simp add: errorForm_def)
  moreover have "take 6 (errorForm verb noun path cause) = ''error ''"
    by (simp add: errorForm_def)
  ultimately show ?thesis
    using 1 2 3 by (simp add: hasErrorForm_def)
qed

lemma hasErrorForm_iff:
  "hasErrorForm e = (\<exists>verb noun path cause. e = errorForm verb noun path cause)"
proof
  assume h: "hasErrorForm e"
  then have start: "take 6 e = ''error ''" by (simp add: hasErrorForm_def)
  from h obtain r1 r2 r3 where
    "findAfter ''ing '' (drop 6 e) = Some r1" and "findAfter '' from '' r1 = Some r2" and
    "findAfter '': '' r2 = Some r3"
    by (auto simp: hasErrorForm_def split: option.splits)
  then obtain verb noun path where
    "drop 6 e = verb @ ''ing '' @ r1" and "r1 = noun @ '' from '' @ r2" and
    "r2 = path @ '': '' @ r3"
    by (meson findAfter_sound)
  with start have "e = errorForm verb noun path r3"
    unfolding errorForm_def by (metis append_take_drop_id)
  then show "\<exists>verb noun path cause. e = errorForm verb noun path cause" by blast
next
  assume "\<exists>verb noun path cause. e = errorForm verb noun path cause"
  then show "hasErrorForm e" using hasErrorForm_errorForm by blast
qed
















section \<open>Output names\<close>













section \<open>Signing with intermediate certificates\<close>

text \<open>
  C2. With a CoRIM file that decodes to a valid manifest, a Meta file that decodes to a
  valid Meta and a key file that holds a key, \<^verbatim>\<open>sign\<close> given intermediate certificates
  and no signing certificate fails with
  \<^verbatim>\<open>cannot add intermediate certificates without a signing certificate\<close>, and writes
  nothing.
\<close>

theorem intermediates_need_signing_cert:
  assumes "ReadFile F fs unsignedCorimFile = Inr unsignedCorimCBOR"
    and "CorimFromCBOR S unsignedCorimCBOR = Inr c"
    and "CorimValid S c = None"
    and "ReadFile F fs metaFile = Inr metaJSON"
    and "MetaFromJSON S metaJSON = Inr m"
    and "MetaValid S m = None"
    and "ReadFile F fs keyFile = Inr keyJWK"
    and "SignerFromJWK S keyJWK = Inr signer"
    and "intermediatesFile \<noteq> ''''"
  shows "sign F S fs unsignedCorimFile metaFile keyFile outputFile '''' intermediatesFile =
         (fs, Inl ''cannot add intermediate certificates without a signing certificate'')"
  using assms by (simp add: sign_def loadCerts_def)

text \<open>The run of \<^verbatim>\<open>Test_CorimSignCmd_intermediates_without_signing_cert\<close>.\<close>

theorem intermediates_need_signing_cert_witness:
  "sign memMapFs demoSigning
     [(''ok.cbor'', [0xA1, 1, 0xAA]), (''ok.json'', [0x7B, 0x7D]), (''ok.jwk'', [0x7B, 0x7D]),
      (''intermediates.der'', [0x30])]
     ''ok.cbor'' ''ok.json'' ''ok.jwk'' None '''' ''intermediates.der'' =
   ([(''ok.cbor'', [0xA1, 1, 0xAA]), (''ok.json'', [0x7B, 0x7D]), (''ok.jwk'', [0x7B, 0x7D]),
     (''intermediates.der'', [0x30])],
    Inl ''cannot add intermediate certificates without a signing certificate'')"
proof -
  let ?fs = "[(''ok.cbor'', [0xA1, 1, 0xAA]), (''ok.json'', [0x7B, 0x7D]),
              (''ok.jwk'', [0x7B, 0x7D]), (''intermediates.der'', [0x30 :: byte])]"
  have "ReadFile memMapFs ?fs ''ok.cbor'' = Inr [0xA1, 1, 0xAA]"
    and "CorimFromCBOR demoSigning [0xA1, 1, 0xAA] = Inr \<lparr>Tags = [[0xAA]], Rest = ()\<rparr>"
    and "CorimValid demoSigning \<lparr>Tags = [[0xAA]], Rest = ()\<rparr> = None"
    and "ReadFile memMapFs ?fs ''ok.json'' = Inr [0x7B, 0x7D]"
    and "MetaFromJSON demoSigning [0x7B, 0x7D] = Inr ''signer''"
    and "MetaValid demoSigning ''signer'' = None"
    and "ReadFile memMapFs ?fs ''ok.jwk'' = Inr [0x7B, 0x7D]"
    and "SignerFromJWK demoSigning [0x7B, 0x7D] = Inr [0x7B, 0x7D]"
    and "''intermediates.der'' \<noteq> ''''"
    by (simp_all add: memMapFs_def demoSigning_def demoFromCBOR_def demoValid_def
          demoArtifact_def)
  then show ?thesis by (rule intermediates_need_signing_cert)
qed

end
